theory Spec2Isabelle
  imports Main "HOL-Library.AList"
begin

section \<open>The React binding: job state and the stream reducer\<close>

text \<open>
  Source: the job module of the React package (the second document of
  \<^verbatim>\<open>sdk-react/src/useFigmaFile.ts\<close>): the types \<^verbatim>\<open>Status\<close>, \<^verbatim>\<open>TaskStatus\<close>,
  \<^verbatim>\<open>CodegenState\<close>, the constant \<^verbatim>\<open>initialProgress\<close> and the functions
  \<^verbatim>\<open>subscribeToJobStream\<close>, \<^verbatim>\<open>createJob\<close> and \<^verbatim>\<open>attachJob\<close>.
\<close>

datatype status = S_idle | S_pending | S_success | S_aborted | S_error

datatype task_status = T_pending | T_running | T_finished

text \<open>The arguments of the \<^verbatim>\<open>CodegenError\<close> constructor, as the callers pass them.\<close>

record codegen_error =
  name :: string
  reason :: string
  http_status :: "int option"
  detail :: "string option"

record anima_file =
  content :: string
  isBinary :: bool

text \<open>
  \<^verbatim>\<open>AnimaFiles = Record<string, {content, isBinary}>\<close>: a JavaScript object, kept as an
  association list in insertion order; assigning a property is \<^const>\<open>AList.update\<close>.
\<close>

type_synonym anima_files = "(string \<times> anima_file) list"

record asset =
  asset_name :: string
  asset_url :: string

record progress_message =
  pm_id :: string
  pm_title :: string
  pm_body :: string
  pm_images :: "string list option"

text \<open>\<^verbatim>\<open>Partial<AnimaSDKResult>\<close>: every field may still be missing.\<close>

record sdk_result =
  sessionId :: "string option"
  figmaFileName :: "string option"
  figmaSelectedFrameName :: "string option"
  tokenUsage :: "int option"
  files :: "anima_files option"
  assets :: "asset list option"

text \<open>
  \<^verbatim>\<open>tasks\<close> of \<^verbatim>\<open>CodegenState\<close>; the nested object
  \<^verbatim>\<open>codeGeneration: {status, progress}\<close> is flattened into two fields.
\<close>

record tasks =
  fetchDesign :: task_status
  codeGeneration :: task_status
  codeGeneration_progress :: int
  uploadAssets :: task_status

record codegen_state =
  status :: status
  error :: "codegen_error option"
  result :: "sdk_result option"
  progressMessages :: "progress_message list"
  tasks :: tasks
  jobSessionId :: "string option"
  jobStatus :: "(string \<times> string) list"

definition initialProgress :: codegen_state where
  "initialProgress =
     \<lparr> status = S_idle, error = None, result = None, progressMessages = [],
       tasks = \<lparr> fetchDesign = T_pending, codeGeneration = T_pending,
                 codeGeneration_progress = 0, uploadAssets = T_pending \<rparr>,
       jobSessionId = None, jobStatus = [] \<rparr>"

definition MAX_RETRIES_AFTER_ERROR :: nat where
  "MAX_RETRIES_AFTER_ERROR = 10"

subsection \<open>Events\<close>

text \<open>
  The payload of an in-band \<^verbatim>\<open>error\<close> frame after \<^verbatim>\<open>JSON.parse\<close>
  (\<^verbatim>\<open>StreamErrorPayload\<close>); the handler reads every field through optional chaining,
  so each may be absent.
\<close>

record stream_error_payload =
  p_name :: "string option"
  p_message :: "string option"
  p_status :: "int option"
  p_detail :: "string option"

text \<open>
  What the \<^verbatim>\<open>error\<close> listener can receive:
  \<^item> \<open>ErrorEvent\<close>: not a \<^verbatim>\<open>MessageEvent\<close> (a transport error raised by the event source),
    so \<^verbatim>\<open>errorPayload\<close> stays undefined;
  \<^item> \<open>MessageEvent_malformed\<close>: a \<^verbatim>\<open>MessageEvent\<close> whose data \<^verbatim>\<open>JSON.parse\<close> rejects (or
    parses to \<^verbatim>\<open>null\<close>), so \<^verbatim>\<open>errorPayload\<close> is nullish as well;
  \<^item> \<open>MessageEvent None\<close>: the data parses to a value without a \<^verbatim>\<open>payload\<close>;
  \<^item> \<open>MessageEvent (Some p)\<close>: the data parses to an object with payload \<open>p\<close>.
\<close>

datatype error_frame =
  ErrorEvent
  | MessageEvent_malformed
  | MessageEvent "stream_error_payload option"

datatype generating_status = G_success | G_running | G_failure

text \<open>
  The named events for which \<^verbatim>\<open>subscribeToJobStream\<close> registers a listener, each with
  the fields its listener reads; \<open>Unlistened\<close> is any other event name.
\<close>

datatype event =
  Start string
  | Queueing string
  | Pre_codegen string
  | Figma_metadata string string
  | Aborted
  | Generating_code generating_status int "anima_files option"
  | Progress_messages_updated "progress_message list"
  | Job_status_updated "(string \<times> string) list"
  | Codegen_completed
  | Generation_completed
  | Assets_uploaded
  | Assets_list "asset list"
  | Error error_frame
  | Done int string
  | Unlistened string

text \<open>
  \<^verbatim>\<open>lastFetchResponse\<close>: the promise of the first \<^verbatim>\<open>fetch\<close>, handed to
  \<^verbatim>\<open>subscribeToJobStream\<close> by value. \<open>body_text\<close> is what \<^verbatim>\<open>response.text()\<close> yields
  (\<open>None\<close> when it rejects) and \<open>body_payload_message\<close> is
  \<^verbatim>\<open>JSON.parse(text)?.payload?.message\<close> when the text parses and the field is truthy.
\<close>

record fetch_response =
  ok :: bool
  response_status :: int
  body_text :: "string option"
  body_payload_message :: "string option"

datatype fetch_promise = Fetch_rejected | Fetch_resolved fetch_response

subsection \<open>The closure of one subscription\<close>

text \<open>
  How the promise returned by \<^verbatim>\<open>subscribeToJobStream\<close> settled. The \<^verbatim>\<open>done\<close> listener
  resolves it with the accumulated \<^verbatim>\<open>result\<close> object itself; a resolution is recorded with
  the result as it is when \<^verbatim>\<open>resolve\<close> is called.
\<close>

datatype outcome =
  Resolved "sdk_result option" "codegen_error option"
  | Rejected codegen_error

text \<open>
  The variables captured by the listeners: the mutable \<^verbatim>\<open>state\<close>, the accumulated
  \<^verbatim>\<open>result\<close>, \<^verbatim>\<open>errorCount\<close>; and what the listeners do to the outside: the states
  passed to \<^verbatim>\<open>stateUpdated\<close> in call order, the settlement of the promise (a promise
  settles once; later \<^verbatim>\<open>resolve\<close>/\<^verbatim>\<open>reject\<close> calls do nothing) and whether
  \<^verbatim>\<open>es.close()\<close> was called by a listener. A snapshot is recorded as the callback
  receives it at the call: \<^verbatim>\<open>{...state}\<close> is a shallow copy, whose \<^verbatim>\<open>tasks\<close> object stays
  shared with the live state.
\<close>

record job_stream =
  state :: codegen_state
  acc_result :: sdk_result
  errorCount :: nat
  snapshots :: "codegen_state list"
  settled :: "outcome option"
  es_closed :: bool

definition stateUpdated :: "job_stream \<Rightarrow> job_stream" where
  "stateUpdated js = js\<lparr>snapshots := snapshots js @ [state js]\<rparr>"

definition settle :: "outcome \<Rightarrow> job_stream \<Rightarrow> job_stream" where
  "settle v js = (case settled js of None \<Rightarrow> js\<lparr>settled := Some v\<rparr> | Some _ \<Rightarrow> js)"

definition set_tasks :: "(tasks \<Rightarrow> tasks) \<Rightarrow> job_stream \<Rightarrow> job_stream" where
  "set_tasks f js = js\<lparr>state := (state js)\<lparr>tasks := f (tasks (state js))\<rparr>\<rparr>"

definition empty_result :: sdk_result where
  "empty_result =
     \<lparr> sessionId = None, figmaFileName = None, figmaSelectedFrameName = None,
       tokenUsage = None, files = None, assets = None \<rparr>"

text \<open>The state after the synchronous prologue: status \<^verbatim>\<open>pending\<close>, one snapshot sent.\<close>

definition subscribed :: job_stream where
  "subscribed =
     stateUpdated
       \<lparr> state = initialProgress\<lparr>status := S_pending\<rparr>, acc_result = empty_result,
         errorCount = 0, snapshots = [], settled = None, es_closed = False \<rparr>"

subsection \<open>The listeners\<close>

definition on_start :: "string \<Rightarrow> job_stream \<Rightarrow> job_stream" where
  "on_start sid js =
     stateUpdated
       (js\<lparr>acc_result := (acc_result js)\<lparr>sessionId := Some sid\<rparr>,
           state := (state js)\<lparr>tasks := (tasks (state js))\<lparr>fetchDesign := T_running\<rparr>,
                                 jobSessionId := Some sid\<rparr>\<rparr>)"

definition on_queueing :: "string \<Rightarrow> job_stream \<Rightarrow> job_stream" where
  "on_queueing sid js = stateUpdated (js\<lparr>state := (state js)\<lparr>jobSessionId := Some sid\<rparr>\<rparr>)"

definition on_pre_codegen :: "string \<Rightarrow> job_stream \<Rightarrow> job_stream" where
  "on_pre_codegen msg js =
     (if msg = ''Anima model built''
      then stateUpdated
             (set_tasks (\<lambda>t. t\<lparr>fetchDesign := T_finished, codeGeneration := T_running,
                                 uploadAssets := T_running\<rparr>) js)
      else js)"

definition on_figma_metadata :: "string \<Rightarrow> string \<Rightarrow> job_stream \<Rightarrow> job_stream" where
  "on_figma_metadata fname frame js =
     js\<lparr>acc_result := (acc_result js)\<lparr>figmaFileName := Some fname,
                                       figmaSelectedFrameName := Some frame\<rparr>\<rparr>"

definition aborted_error :: codegen_error where
  "aborted_error = \<lparr> name = ''Aborted'', reason = ''Unknown'', http_status = None, detail = None \<rparr>"

definition on_aborted :: "job_stream \<Rightarrow> job_stream" where
  "on_aborted js =
     settle (Resolved None (Some aborted_error))
       (stateUpdated
          (js\<lparr>state := (state js)\<lparr>status := S_aborted, result := None,
                                   error := Some aborted_error\<rparr>\<rparr>))"

definition on_generating_code ::
  "generating_status \<Rightarrow> int \<Rightarrow> anima_files option \<Rightarrow> job_stream \<Rightarrow> job_stream" where
  "on_generating_code st prog fs js =
     stateUpdated
       (set_tasks (\<lambda>t. t\<lparr>codeGeneration_progress := prog, codeGeneration := T_running\<rparr>)
          (if st = G_success then js\<lparr>acc_result := (acc_result js)\<lparr>files := fs\<rparr>\<rparr> else js))"

definition on_progress_messages_updated :: "progress_message list \<Rightarrow> job_stream \<Rightarrow> job_stream" where
  "on_progress_messages_updated pms js =
     stateUpdated (js\<lparr>state := (state js)\<lparr>progressMessages := pms\<rparr>\<rparr>)"

definition on_job_status_updated :: "(string \<times> string) list \<Rightarrow> job_stream \<Rightarrow> job_stream" where
  "on_job_status_updated st js = stateUpdated (js\<lparr>state := (state js)\<lparr>jobStatus := st\<rparr>\<rparr>)"

definition on_codegen_completed :: "job_stream \<Rightarrow> job_stream" where
  "on_codegen_completed js = stateUpdated (set_tasks (\<lambda>t. t\<lparr>codeGeneration := T_finished\<rparr>) js)"

definition on_generation_completed :: "job_stream \<Rightarrow> job_stream" where
  "on_generation_completed js =
     stateUpdated (set_tasks (\<lambda>t. t\<lparr>codeGeneration := T_finished\<rparr>) js)"

definition on_assets_uploaded :: "job_stream \<Rightarrow> job_stream" where
  "on_assets_uploaded js = stateUpdated (set_tasks (\<lambda>t. t\<lparr>uploadAssets := T_finished\<rparr>) js)"

definition on_assets_list :: "asset list \<Rightarrow> job_stream \<Rightarrow> job_stream" where
  "on_assets_list as js = js\<lparr>acc_result := (acc_result js)\<lparr>assets := Some as\<rparr>\<rparr>"

definition on_done :: "int \<Rightarrow> string \<Rightarrow> job_stream \<Rightarrow> job_stream" where
  "on_done usage sid js =
     (let r = (acc_result js)\<lparr>tokenUsage := Some usage, sessionId := Some sid\<rparr>
      in settle (Resolved (Some r) None)
           (stateUpdated
              (js\<lparr>acc_result := r,
                  state := (state js)\<lparr>status := S_success, result := Some r\<rparr>\<rparr>)))"

text \<open>
  The \<^verbatim>\<open>error\<close> listener is an \<^verbatim>\<open>async\<close> function. Called for a frame, it returns at
  once when there is no \<^verbatim>\<open>lastFetchResponse\<close>, and otherwise suspends at
  \<^verbatim>\<open>await lastFetchResponse\<close> before having done anything. The rest of its body runs when
  it is resumed, which is after the synchronous listeners of all the frames that the
  event source dispatches from the same chunk. The definitions that follow are that
  rest.
  \<^item> When awaiting the fetch throws, the listener ends there.
  \<^item> A response that is not \<^verbatim>\<open>ok\<close> rejects the promise with \<^verbatim>\<open>Request failed\<close> and closes
    the event source (the read of the response text is taken to end before the next
    chunk arrives).
  \<^item> Otherwise the frame is classified. \<^verbatim>\<open>errorPayload?.payload.name\<close> throws a TypeError
    when the frame parsed to a value without payload, before \<^verbatim>\<open>errorCount++\<close>: nothing
    changes then.
\<close>

definition request_failed :: "fetch_response \<Rightarrow> codegen_error" where
  "request_failed r =
     \<lparr> name = ''Request failed'',
       reason = (case body_text r of None \<Rightarrow> []
                 | Some txt \<Rightarrow> (case body_payload_message r of None \<Rightarrow> txt | Some m \<Rightarrow> m)),
       http_status = Some (response_status r), detail = None \<rparr>"

definition isUnrecoverableError :: "stream_error_payload option \<Rightarrow> bool" where
  "isUnrecoverableError errorPayload =
     (case errorPayload of None \<Rightarrow> False
      | Some p \<Rightarrow> p_name p = Some ''Task Crashed'' \<or> p_name p = Some ''TimeoutError''
                 \<or> p_name p = Some ''Error'' \<or> p_name p = Some ''Unknown error'')"

definition codegenError :: "stream_error_payload option \<Rightarrow> codegen_error" where
  "codegenError errorPayload =
     (case errorPayload of
        None \<Rightarrow> \<lparr> name = ''Unknown error'', reason = ''Unknown'', http_status = None,
                  detail = None \<rparr>
      | Some p \<Rightarrow>
          \<lparr> name = (case p_name p of None \<Rightarrow> ''Unknown error'' | Some n \<Rightarrow> n),
            reason = (case p_message p of None \<Rightarrow> ''Unknown'' | Some m \<Rightarrow> m),
            http_status = p_status p, detail = p_detail p \<rparr>)"

definition classify :: "stream_error_payload option \<Rightarrow> job_stream \<Rightarrow> job_stream" where
  "classify errorPayload js =
     (let err = codegenError errorPayload;
          js1 = js\<lparr>errorCount := errorCount js + 1\<rparr>;
          shouldTerminateRequest =
            (if errorCount js1 > MAX_RETRIES_AFTER_ERROR then True
             else if isUnrecoverableError errorPayload then True else False)
      in if shouldTerminateRequest
         then settle (Resolved None (Some err))
                (stateUpdated
                   (js1\<lparr>state := (state js1)\<lparr>status := S_error, error := Some err\<rparr>\<rparr>))
         else js1)"

definition on_error_resumed :: "fetch_promise \<Rightarrow> error_frame \<Rightarrow> job_stream \<Rightarrow> job_stream" where
  "on_error_resumed fetched frame js =
     (case fetched of
        Fetch_rejected \<Rightarrow> js
      | Fetch_resolved response \<Rightarrow>
          if \<not> ok response
          then (settle (Rejected (request_failed response)) js)\<lparr>es_closed := True\<rparr>
          else (case frame of
                  ErrorEvent \<Rightarrow> classify None js
                | MessageEvent_malformed \<Rightarrow> classify None js
                | MessageEvent None \<Rightarrow> js
                | MessageEvent (Some p) \<Rightarrow> classify (Some p) js))"

subsection \<open>Chunks of events and the whole subscription\<close>

text \<open>
  What a listener does synchronously when its event is dispatched. For an \<^verbatim>\<open>error\<close>
  event that is nothing: the listener returns or suspends.
\<close>

fun listen :: "event \<Rightarrow> job_stream \<Rightarrow> job_stream" where
  "listen (Start sid) js = on_start sid js"
| "listen (Queueing sid) js = on_queueing sid js"
| "listen (Pre_codegen msg) js = on_pre_codegen msg js"
| "listen (Figma_metadata f n) js = on_figma_metadata f n js"
| "listen Aborted js = on_aborted js"
| "listen (Generating_code st prog fs) js = on_generating_code st prog fs js"
| "listen (Progress_messages_updated pms) js = on_progress_messages_updated pms js"
| "listen (Job_status_updated st) js = on_job_status_updated st js"
| "listen Codegen_completed js = on_codegen_completed js"
| "listen Generation_completed js = on_generation_completed js"
| "listen Assets_uploaded js = on_assets_uploaded js"
| "listen (Assets_list as) js = on_assets_list as js"
| "listen (Error frame) js = js"
| "listen (Done usage sid) js = on_done usage sid js"
| "listen (Unlistened n) js = js"

fun listen_all :: "event list \<Rightarrow> job_stream \<Rightarrow> job_stream" where
  "listen_all [] js = js"
| "listen_all (ev # evs) js = listen_all evs (listen ev js)"

text \<open>The frames of the \<^verbatim>\<open>error\<close> events of a chunk, in arrival order.\<close>

fun error_frames :: "event list \<Rightarrow> error_frame list" where
  "error_frames [] = []"
| "error_frames (Error frame # evs) = frame # error_frames evs"
| "error_frames (ev # evs) = error_frames evs"

text \<open>The suspended \<^verbatim>\<open>error\<close> listeners are resumed in the order of their frames.\<close>

fun resume_all :: "fetch_promise \<Rightarrow> error_frame list \<Rightarrow> job_stream \<Rightarrow> job_stream" where
  "resume_all fetched [] js = js"
| "resume_all fetched (frame # frames) js =
     resume_all fetched frames (on_error_resumed fetched frame js)"

text \<open>
  One chunk: the event source dispatches its events one after the other, each listener
  running synchronously; then the \<^verbatim>\<open>error\<close> listeners that suspended are resumed. Without
  \<^verbatim>\<open>lastFetchResponse\<close> none suspended.
\<close>

definition deliver_chunk :: "fetch_promise option \<Rightarrow> event list \<Rightarrow> job_stream \<Rightarrow> job_stream" where
  "deliver_chunk lastFetchResponse chunk js =
     (case lastFetchResponse of
        None \<Rightarrow> listen_all chunk js
      | Some fetched \<Rightarrow> resume_all fetched (error_frames chunk) (listen_all chunk js))"

text \<open>The chunks arrive in order, the listeners mutating the closure.\<close>

fun deliver :: "fetch_promise option \<Rightarrow> event list list \<Rightarrow> job_stream \<Rightarrow> job_stream" where
  "deliver lfr [] js = js"
| "deliver lfr (chunk # chunks) js = deliver lfr chunks (deliver_chunk lfr chunk js)"

text \<open>
  The subscription, for the chunks of events that the event source delivers while it is
  open.
\<close>

definition subscribeToJobStream :: "fetch_promise option \<Rightarrow> event list list \<Rightarrow> job_stream" where
  "subscribeToJobStream lfr chunks = deliver lfr chunks subscribed"

subsection \<open>Vocabulary of the properties\<close>

text \<open>
  A listener run as a whole: the synchronous listener of an event or, for an \<^verbatim>\<open>error\<close>
  event, the resumed listener. Running the listeners of a list of events one after the
  other is what a chunk does to the closure once its \<^verbatim>\<open>error\<close> events are moved behind
  its other events (\<open>resumed_last\<close>).
\<close>

fun run_listener :: "fetch_promise option \<Rightarrow> event \<Rightarrow> job_stream \<Rightarrow> job_stream" where
  "run_listener None ev js = listen ev js"
| "run_listener (Some fetched) (Error frame) js = on_error_resumed fetched frame js"
| "run_listener (Some fetched) ev js = listen ev js"

fun run_listeners :: "fetch_promise option \<Rightarrow> event list \<Rightarrow> job_stream \<Rightarrow> job_stream" where
  "run_listeners lfr [] js = js"
| "run_listeners lfr (ev # evs) js = run_listeners lfr evs (run_listener lfr ev js)"

fun is_error_event :: "event \<Rightarrow> bool" where
  "is_error_event (Error frame) = True"
| "is_error_event ev = False"

definition resumed_last :: "event list \<Rightarrow> event list" where
  "resumed_last chunk = filter (\<lambda>ev. \<not> is_error_event ev) chunk @ filter is_error_event chunk"

text \<open>A chunk without its \<^verbatim>\<open>error\<close> events.\<close>

definition without_errors :: "event list \<Rightarrow> event list" where
  "without_errors chunk = filter (\<lambda>ev. \<not> is_error_event ev) chunk"

text \<open>\<^verbatim>\<open>errorPayload\<close> as the listener has it after the parse attempt.\<close>

definition frame_payload :: "error_frame \<Rightarrow> stream_error_payload option" where
  "frame_payload f = (case f of MessageEvent (Some p) \<Rightarrow> Some p | _ \<Rightarrow> None)"

text \<open>
  A transient frame: the listener reaches \<^verbatim>\<open>errorCount++\<close> and the name is not in the
  fatal list.
\<close>

definition transient_frame :: "error_frame \<Rightarrow> bool" where
  "transient_frame f =
     (case f of MessageEvent None \<Rightarrow> False
      | MessageEvent (Some p) \<Rightarrow> \<not> isUnrecoverableError (Some p)
      | _ \<Rightarrow> True)"

text \<open>Position of a status on the chain idle, pending, terminal.\<close>

fun status_rank :: "status \<Rightarrow> nat" where
  "status_rank S_idle = 0"
| "status_rank S_pending = 1"
| "status_rank S_success = 2"
| "status_rank S_aborted = 2"
| "status_rank S_error = 2"

text \<open>One move along the chain: stay, or go to a later position.\<close>

definition chain_step :: "status \<Rightarrow> status \<Rightarrow> bool" where
  "chain_step a b = (a = b \<or> status_rank a < status_rank b)"

fun task_rank :: "task_status \<Rightarrow> nat" where
  "task_rank T_pending = 0"
| "task_rank T_running = 1"
| "task_rank T_finished = 2"

definition task_forward :: "task_status \<Rightarrow> task_status \<Rightarrow> bool" where
  "task_forward a b = (task_rank a \<le> task_rank b)"

text \<open>The events whose listener writes \<^verbatim>\<open>running\<close> into a task without reading it.\<close>

definition sets_fetchDesign_running :: "event \<Rightarrow> bool" where
  "sets_fetchDesign_running ev = (case ev of Start _ \<Rightarrow> True | _ \<Rightarrow> False)"

definition sets_codeGeneration_running :: "event \<Rightarrow> bool" where
  "sets_codeGeneration_running ev =
     (case ev of Generating_code _ _ _ \<Rightarrow> True
      | Pre_codegen m \<Rightarrow> m = ''Anima model built'' | _ \<Rightarrow> False)"

definition sets_uploadAssets_running :: "event \<Rightarrow> bool" where
  "sets_uploadAssets_running ev =
     (case ev of Pre_codegen m \<Rightarrow> m = ''Anima model built'' | _ \<Rightarrow> False)"

definition started :: "task_status \<Rightarrow> nat" where
  "started t = (if t = T_pending then 0 else 1)"

text \<open>A \<^verbatim>\<open>generating_code\<close> event whose listener assigns \<^verbatim>\<open>result.files\<close>.\<close>

definition stashes_files :: "event \<Rightarrow> bool" where
  "stashes_files ev = (case ev of Generating_code st _ _ \<Rightarrow> st = G_success | _ \<Rightarrow> False)"

text \<open>
  Invariant of the snapshot list for a measure \<open>f\<close> of the state that no listener
  decreases: the measures of the snapshots sent so far are ascending and bounded by the
  measure of the live state.
\<close>

definition mono_inv :: "(codegen_state \<Rightarrow> nat) \<Rightarrow> job_stream \<Rightarrow> bool" where
  "mono_inv f js =
     (sorted (map f (snapshots js)) \<and> (\<forall>s\<in>set (snapshots js). f s \<le> f (state js)))"

text \<open>The events of a stream in the order in which their listeners take effect.\<close>

definition effect_order :: "event list list \<Rightarrow> event list" where
  "effect_order chunks = concat (map resumed_last chunks)"

section \<open>The React binding: \<^verbatim>\<open>createJob\<close> and \<^verbatim>\<open>attachJob\<close> of the job module\<close>

text \<open>
  \<^verbatim>\<open>assetsStorage\<close> of \<^verbatim>\<open>UseAnimaParams\<close>: the strategies of the SDK (\<^verbatim>\<open>host\<close>,
  \<^verbatim>\<open>external\<close>) and the two shapes of \<^verbatim>\<open>LocalAssetsStorage\<close>.
\<close>

datatype local_assets_storage =
  Local_path string
  | Local_paths string string

datatype assets_storage =
  Host
  | External string
  | Local local_assets_storage

record local_strategy_params =
  filePath :: string
  referencePath :: string

text \<open>\<^verbatim>\<open>s.replace(/^\//, "")\<close>: one leading slash is removed.\<close>

fun strip_leading_slash :: "string \<Rightarrow> string" where
  "strip_leading_slash [] = []"
| "strip_leading_slash (c # cs) = (if c = CHR ''/'' then cs else c # cs)"

fun getAssetsLocalStrategyParams :: "local_assets_storage \<Rightarrow> local_strategy_params" where
  "getAssetsLocalStrategyParams (Local_path path) =
     \<lparr> filePath = strip_leading_slash path,
       referencePath = (if path = ''/'' then [] else path) \<rparr>"
| "getAssetsLocalStrategyParams (Local_paths fp rp) =
     \<lparr> filePath = strip_leading_slash fp,
       referencePath = (if rp = ''/'' then [] else rp) \<rparr>"

text \<open>The \<^verbatim>\<open>assetsStorage\<close> put on the wire: a local strategy is sent as an external one.\<close>

definition wire_assetsStorage :: "assets_storage option \<Rightarrow> assets_storage option" where
  "wire_assetsStorage st =
     (case st of
        Some (Local l) \<Rightarrow> Some (External (referencePath (getAssetsLocalStrategyParams l)))
      | other \<Rightarrow> other)"

text \<open>
  What \<^verbatim>\<open>fetch(asset.url)\<close> followed by \<^verbatim>\<open>response.arrayBuffer()\<close> can do. \<^verbatim>\<open>fetch\<close>
  rejects on a network failure only: a response with any HTTP status, 404 included,
  fulfils, and the code does not look at \<^verbatim>\<open>response.ok\<close>.
\<close>

datatype download =
  Fetch_failed
  | Body_failed int
  | Downloaded int string

text \<open>One entry of the array that \<^verbatim>\<open>Promise.allSettled\<close> yields.\<close>

datatype settled_download =
  Fulfilled string string
  | Rejected_download

definition downloadAsset :: "(string \<Rightarrow> string) \<Rightarrow> (string \<Rightarrow> download) \<Rightarrow> asset \<Rightarrow> settled_download" where
  "downloadAsset arrayBufferToBase64 fetch_url a =
     (case fetch_url (asset_url a) of
        Downloaded st buffer \<Rightarrow> Fulfilled (asset_name a) (arrayBufferToBase64 buffer)
      | _ \<Rightarrow> Rejected_download)"

definition assetPath :: "string \<Rightarrow> string \<Rightarrow> string" where
  "assetPath fp assetName = (if fp \<noteq> [] then fp @ ''/'' @ assetName else assetName)"

datatype thrown = Codegen_error codegen_error | TypeError

text \<open>
  The loop over the settled downloads. \<^verbatim>\<open>result.files[assetPath] = ...\<close> throws a
  TypeError when \<^verbatim>\<open>result.files\<close> is undefined.
\<close>

fun inject :: "string \<Rightarrow> settled_download list \<Rightarrow> anima_files option \<Rightarrow> thrown + anima_files option" where
  "inject fp [] fs = Inr fs"
| "inject fp (Rejected_download # ds) fs = inject fp ds fs"
| "inject fp (Fulfilled assetName base64 # ds) fs =
     (case fs of
        None \<Rightarrow> Inl TypeError
      | Some m \<Rightarrow>
          inject fp ds
            (Some (AList.update (assetPath fp assetName)
                     \<lparr> content = base64, isBinary = True \<rparr> m)))"

record job_return =
  ret_result :: "sdk_result option"
  ret_error :: "codegen_error option"

text \<open>
  \<^verbatim>\<open>await subscribeToJobStream(...)\<close>, from a state of the subscription on. The awaiting
  function is resumed after the listeners of the chunk in which the promise settled,
  and not before the next chunk when the promise is not settled. The resolution of the
  \<^verbatim>\<open>done\<close> listener hands over the \<^verbatim>\<open>result\<close> object, not a copy of it, so what
  \<^verbatim>\<open>structuredClone(r)\<close> copies is the result as the listeners of that chunk left it.
  \<open>None\<close>: the promise is never settled.
\<close>

definition read_outcome :: "job_stream \<Rightarrow> outcome option" where
  "read_outcome js =
     (case settled js of
        Some (Resolved (Some r) e) \<Rightarrow> Some (Resolved (Some (acc_result js)) e)
      | other \<Rightarrow> other)"

fun awaited :: "fetch_promise option \<Rightarrow> event list list \<Rightarrow> job_stream \<Rightarrow> outcome option" where
  "awaited lfr [] js = read_outcome js"
| "awaited lfr (chunk # chunks) js =
     (case settled js of
        None \<Rightarrow> awaited lfr chunks (deliver_chunk lfr chunk js)
      | Some _ \<Rightarrow> read_outcome js)"

text \<open>
  \<^verbatim>\<open>createJob\<close> of the job module, for the chunks of events that the event source
  delivers before it is closed.
  The value is \<open>None\<close> when the promise of the subscription never settles, \<open>Inl\<close> when
  the call throws and \<open>Inr\<close> when it returns; the \<^verbatim>\<open>finally\<close> block closes the event
  source in the last two cases. \<open>arrayBufferToBase64\<close> (module \<^verbatim>\<open>./utils\<close>) and the
  network (\<open>fetch_url\<close>) are parameters.
\<close>

definition createJob ::
  "(string \<Rightarrow> string) \<Rightarrow> (string \<Rightarrow> download) \<Rightarrow> fetch_promise option
     \<Rightarrow> assets_storage option \<Rightarrow> event list list \<Rightarrow> (thrown + job_return) option" where
  "createJob arrayBufferToBase64 fetch_url lfr storage chunks =
     (case awaited lfr chunks subscribed of
        None \<Rightarrow> None
      | Some (Rejected e) \<Rightarrow> Some (Inl (Codegen_error e))
      | Some (Resolved r (Some e)) \<Rightarrow> Some (Inr \<lparr> ret_result = None, ret_error = Some e \<rparr>)
      | Some (Resolved None None) \<Rightarrow> Some (Inr \<lparr> ret_result = None, ret_error = None \<rparr>)
      | Some (Resolved (Some res) None) \<Rightarrow>
          (case (storage, assets res) of
             (Some (Local l), Some (a # as)) \<Rightarrow>
               (case inject (filePath (getAssetsLocalStrategyParams l))
                       (map (downloadAsset arrayBufferToBase64 fetch_url) (a # as))
                       (files res) of
                  Inl t \<Rightarrow> Some (Inl t)
                | Inr fs \<Rightarrow>
                    Some (Inr \<lparr> ret_result = Some (res\<lparr>files := fs\<rparr>), ret_error = None \<rparr>))
           | _ \<Rightarrow> Some (Inr \<lparr> ret_result = Some res, ret_error = None \<rparr>)))"

definition attachJob ::
  "fetch_promise option \<Rightarrow> event list list \<Rightarrow> (thrown + job_return) option" where
  "attachJob lfr chunks =
     (case awaited lfr chunks subscribed of
        None \<Rightarrow> None
      | Some (Rejected e) \<Rightarrow> Some (Inl (Codegen_error e))
      | Some (Resolved r (Some e)) \<Rightarrow> Some (Inr \<lparr> ret_result = None, ret_error = Some e \<rparr>)
      | Some (Resolved r None) \<Rightarrow> Some (Inr \<lparr> ret_result = r, ret_error = None \<rparr>))"

text \<open>The network of scenario E, read literally: the second asset answers 404.\<close>

definition scenario_e_404 :: "string \<Rightarrow> download" where
  "scenario_e_404 u =
     (if u = ''https://cdn/a.png'' then Downloaded 200 ''PNG''
      else if u = ''https://cdn/b.png'' then Downloaded 404 ''Not Found''
      else Fetch_failed)"

text \<open>The same scenario with a download that fails: the fetch of the second asset rejects.\<close>

definition scenario_e_failed :: "string \<Rightarrow> download" where
  "scenario_e_failed u =
     (if u = ''https://cdn/a.png'' then Downloaded 200 ''PNG'' else Fetch_failed)"

definition scenario_e_events :: "event list list" where
  "scenario_e_events =
     [ [Start ''s1''],
      [Generating_code G_success 100
         (Some [(''a.txt'', \<lparr> content = ''hello'', isBinary = False \<rparr>)]),
       Assets_list [\<lparr> asset_name = ''a.png'', asset_url = ''https://cdn/a.png'' \<rparr>,
                    \<lparr> asset_name = ''b.png'', asset_url = ''https://cdn/b.png'' \<rparr>]],
      [Done 10 ''s1''] ]"

section \<open>The React binding: the provider\<close>

text \<open>
  Source: \<^verbatim>\<open>AnimaSdkProvider\<close> (the first document of \<^verbatim>\<open>unnamed/part_002\<close>): the type
  \<^verbatim>\<open>Job\<close>, the error classes, \<^verbatim>\<open>createJob\<close>, \<^verbatim>\<open>attachJob\<close> and the effect on
  \<^verbatim>\<open>rawState\<close>.
\<close>

datatype job_type = F2c | L2c | P2c

fun job_type_name :: "job_type \<Rightarrow> string" where
  "job_type_name F2c = ''f2c''"
| "job_type_name L2c = ''l2c''"
| "job_type_name P2c = ''p2c''"

text \<open>\<^verbatim>\<open>['f2c', 'l2c', 'p2c'].includes(storedType)\<close>, then the cast to \<^verbatim>\<open>JobType\<close>.\<close>

definition known_job_type :: "string \<Rightarrow> job_type option" where
  "known_job_type s =
     (if s = ''f2c'' then Some F2c else if s = ''l2c'' then Some L2c
      else if s = ''p2c'' then Some P2c else None)"

record provider_props =
  f2cUrl :: string
  l2cUrl :: string
  p2cUrl :: string

fun mappingJobTypeToUrl :: "provider_props \<Rightarrow> job_type \<Rightarrow> string" where
  "mappingJobTypeToUrl props F2c = f2cUrl props"
| "mappingJobTypeToUrl props L2c = l2cUrl props"
| "mappingJobTypeToUrl props P2c = p2cUrl props"

text \<open>
  The errors the provider throws: a plain \<^verbatim>\<open>Error\<close>, \<^verbatim>\<open>CreateJobError\<close> and
  \<^verbatim>\<open>AttachJobError\<close>, each with its message and, for the two classes, the cause.
\<close>

datatype provider_error =
  Plain_error string
  | CreateJobError string thrown
  | AttachJobError string "thrown option"

text \<open>
  The parameters of a job: the \<^verbatim>\<open>assetsStorage\<close> field, which the job module reads, and
  the rest kept opaque. \<open>No_params\<close> is the empty object \<^verbatim>\<open>{}\<close>.
\<close>

datatype job_params = No_params | Params "assets_storage option" string

record job_fields =
  job_type :: job_type
  job_params :: job_params
  job_sessionId :: "string option"
  job_payload :: "(string \<times> string) list"
  job_progressMessages :: "progress_message list"

text \<open>
  The error of a job in status \<^verbatim>\<open>error\<close>: one thrown by the provider, the
  \<^verbatim>\<open>CodegenError\<close> of the raw state, or \<^verbatim>\<open>UnknownCodegenError\<close>.
\<close>

datatype job_error =
  Provider_error provider_error
  | Raw_error codegen_error
  | UnknownCodegenError

datatype job =
  Job_idle
  | Job_error job_fields job_error
  | Job_pending job_fields
  | Job_success job_fields "anima_files option" "asset list option"

text \<open>\<^verbatim>\<open>'params' in job ? job.params : {}\<close>\<close>

fun params_in_job :: "job \<Rightarrow> job_params" where
  "params_in_job Job_idle = No_params"
| "params_in_job (Job_error f _) = job_params f"
| "params_in_job (Job_pending f) = job_params f"
| "params_in_job (Job_success f _ _) = job_params f"

fun job_status :: "job \<Rightarrow> status" where
  "job_status Job_idle = S_idle"
| "job_status (Job_error _ _) = S_error"
| "job_status (Job_pending _) = S_pending"
| "job_status (Job_success _ _ _) = S_success"

text \<open>
  The provider as one call sees it: the \<^verbatim>\<open>job\<close> and \<^verbatim>\<open>rawState\<close> of the render that
  created the closure, the ref \<^verbatim>\<open>currentJobType\<close>, the browser's \<^verbatim>\<open>localStorage\<close> (an
  association list; \<^verbatim>\<open>setItem\<close> is \<^const>\<open>AList.update\<close>, \<^verbatim>\<open>getItem\<close> is \<^const>\<open>map_of\<close>), and
  the event sources opened so far, each with its URL and HTTP method.
\<close>

record provider =
  job :: job
  currentJobType :: "job_type option"
  rawState :: codegen_state
  localStorage :: "(string \<times> string) list"
  opened :: "(string \<times> string) list"

definition storage_key :: "string \<Rightarrow> string" where
  "storage_key sid = ''anima:'' @ sid @ '':type''"

text \<open>
  The effect that runs when \<^verbatim>\<open>rawState\<close> changes. In the template string a null
  \<^verbatim>\<open>jobSessionId\<close> prints as \<^verbatim>\<open>null\<close>.
\<close>

definition rawState_effect :: "provider \<Rightarrow> provider" where
  "rawState_effect p =
     (case currentJobType p of
        None \<Rightarrow> p
      | Some jobType \<Rightarrow>
          if status (rawState p) = S_error
          then p\<lparr>job :=
                   Job_error
                     \<lparr> job_type = jobType, job_params = params_in_job (job p),
                       job_sessionId = jobSessionId (rawState p),
                       job_payload = jobStatus (rawState p),
                       job_progressMessages = progressMessages (rawState p) \<rparr>
                     (case error (rawState p) of None \<Rightarrow> UnknownCodegenError
                      | Some e \<Rightarrow> Raw_error e)\<rparr>
          else if status (rawState p) = S_pending
          then p\<lparr>localStorage :=
                   AList.update
                     (storage_key (case jobSessionId (rawState p) of None \<Rightarrow> ''null''
                                   | Some sid \<Rightarrow> sid))
                     (job_type_name jobType) (localStorage p),
                 job :=
                   Job_pending
                     \<lparr> job_type = jobType, job_params = params_in_job (job p),
                       job_sessionId = jobSessionId (rawState p),
                       job_payload = jobStatus (rawState p),
                       job_progressMessages = progressMessages (rawState p) \<rparr>\<rparr>
          else p)"

text \<open>
  \<^verbatim>\<open>setRawState\<close>, the snapshot callback handed to the job module: the model renders
  after every update, so the effect runs for every snapshot.
\<close>

definition setRawState :: "codegen_state \<Rightarrow> provider \<Rightarrow> provider" where
  "setRawState s p = rawState_effect (p\<lparr>rawState := s\<rparr>)"

fun forward_snapshots :: "codegen_state list \<Rightarrow> provider \<Rightarrow> provider" where
  "forward_snapshots [] p = p"
| "forward_snapshots (s # ss) p = forward_snapshots ss (setRawState s p)"

text \<open>
  The environment of one call: \<open>message_of\<close> reads \<^verbatim>\<open>e.message\<close> of a thrown value
  (the class \<^verbatim>\<open>CodegenError\<close> lives in the module \<^verbatim>\<open>./errors\<close> of the SDK), the other fields are
  the parameters of the job module.
\<close>

record environment =
  arrayBufferToBase64 :: "string \<Rightarrow> string"
  fetch_url :: "string \<Rightarrow> download"
  lastFetchResponse :: "fetch_promise option"
  message_of :: "thrown \<Rightarrow> string"

fun storage_of :: "job_params \<Rightarrow> assets_storage option" where
  "storage_of No_params = None"
| "storage_of (Params st _) = st"

text \<open>
  \<^verbatim>\<open>createJob\<close> of the provider. The result pairs the provider afterwards with the
  completion of the call: \<open>None\<close> when it never returns, \<open>Some (Inl e)\<close> when it throws
  \<open>e\<close>, \<open>Some (Inr ())\<close> when it returns. The values \<^verbatim>\<open>rawState.jobStatus\<close> and
  \<^verbatim>\<open>rawState.progressMessages\<close> read after the \<^verbatim>\<open>await\<close> are those of the closure, that
  is, of the provider at the call.
\<close>

definition provider_createJob ::
  "environment \<Rightarrow> provider_props \<Rightarrow> job_type \<Rightarrow> job_params \<Rightarrow> event list list \<Rightarrow> provider
     \<Rightarrow> provider \<times> (provider_error + unit) option" where
  "provider_createJob env props type params chunks p =
     (if job_status (job p) = S_pending
      then (p, Some (Inl (Plain_error ''A job is already in progress'')))
      else
        (let p1 = p\<lparr>currentJobType := Some type,
                     opened := opened p @ [(mappingJobTypeToUrl props type, ''POST'')]\<rparr>;
             p2 = forward_snapshots
                    (snapshots (subscribeToJobStream (lastFetchResponse env) chunks)) p1
         in case createJob (arrayBufferToBase64 env) (fetch_url env) (lastFetchResponse env)
                   (storage_of params) chunks of
              None \<Rightarrow> (p2, None)
            | Some (Inr ret) \<Rightarrow>
                (case ret_result ret of
                   None \<Rightarrow> (p2, Some (Inr ()))
                 | Some res \<Rightarrow>
                     (p2\<lparr>job :=
                           Job_success
                             \<lparr> job_type = type, job_params = params_in_job (job p2),
                               job_sessionId = sessionId res,
                               job_payload = jobStatus (rawState p),
                               job_progressMessages = progressMessages (rawState p) \<rparr>
                             (files res) (assets res)\<rparr>,
                      Some (Inr ())))
            | Some (Inl e) \<Rightarrow>
                (p2\<lparr>currentJobType := None,
                     job :=
                       Job_error
                         \<lparr> job_type = type, job_params = params,
                           job_sessionId = jobSessionId (rawState p),
                           job_payload = jobStatus (rawState p),
                           job_progressMessages = progressMessages (rawState p) \<rparr>
                         (Provider_error (CreateJobError (message_of env e) e))\<rparr>,
                 Some (Inl (CreateJobError (message_of env e) e)))))"

text \<open>
  \<^verbatim>\<open>attachJob\<close> of the provider. \<^verbatim>\<open>!storedType\<close> holds for a missing entry and for the
  empty string.
\<close>

definition provider_attachJob ::
  "environment \<Rightarrow> provider_props \<Rightarrow> string \<Rightarrow> job_params \<Rightarrow> event list list \<Rightarrow> provider
     \<Rightarrow> provider \<times> (provider_error + unit) option" where
  "provider_attachJob env props sid params chunks p =
     (case map_of (localStorage p) (storage_key sid) of
        None \<Rightarrow>
          (p, Some (Inl (AttachJobError
                           (''Cannot attach job '' @ sid @ '': job type not found in local storage'')
                           None)))
      | Some storedType \<Rightarrow>
          if storedType = []
          then (p, Some (Inl (AttachJobError
                                (''Cannot attach job '' @ sid
                                 @ '': job type not found in local storage'')
                                None)))
          else
            (case known_job_type storedType of
               None \<Rightarrow>
                 (p, Some (Inl (AttachJobError
                                  (''Invalid job type '' @ [CHR 0x22] @ storedType @ [CHR 0x22]
                                   @ '' for job '' @ sid)
                                  None)))
             | Some type \<Rightarrow>
                 (let p1 = p\<lparr>currentJobType := Some type,
                              opened := opened p
                                @ [(mappingJobTypeToUrl props type @ ''/'' @ sid, ''POST'')]\<rparr>;
                      p2 = forward_snapshots
                             (snapshots (subscribeToJobStream (lastFetchResponse env) chunks)) p1
                  in case attachJob (lastFetchResponse env) chunks of
                       None \<Rightarrow> (p2, None)
                     | Some (Inr ret) \<Rightarrow>
                         (case ret_result ret of
                            None \<Rightarrow> (p2, Some (Inr ()))
                          | Some res \<Rightarrow>
                              (p2\<lparr>job :=
                                    Job_success
                                      \<lparr> job_type = type, job_params = params_in_job (job p2),
                                        job_sessionId = Some sid,
                                        job_payload = jobStatus (rawState p),
                                        job_progressMessages = progressMessages (rawState p) \<rparr>
                                      (files res) (assets res)\<rparr>,
                               Some (Inr ())))
                     | Some (Inl e) \<Rightarrow>
                         (p2\<lparr>job :=
                               Job_error
                                 \<lparr> job_type = type, job_params = No_params,
                                   job_sessionId = Some sid,
                                   job_payload = jobStatus (rawState p),
                                   job_progressMessages = progressMessages (rawState p) \<rparr>
                                 (Provider_error (AttachJobError (message_of env e) (Some e)))\<rparr>,
                          Some (Inl (AttachJobError (message_of env e) (Some e)))))))"

text \<open>A provider freshly mounted, with the given \<^verbatim>\<open>localStorage\<close>.\<close>

definition mounted :: "(string \<times> string) list \<Rightarrow> provider" where
  "mounted store =
     \<lparr> job = Job_idle, currentJobType = None, rawState = initialProgress,
       localStorage = store, opened = [] \<rparr>"

text \<open>An environment and the properties of a provider, for the scenarios below.\<close>

definition example_environment :: environment where
  "example_environment =
     \<lparr> arrayBufferToBase64 = id, fetch_url = scenario_e_failed,
       lastFetchResponse =
         Some (Fetch_resolved \<lparr> ok = True, response_status = 200, body_text = None,
                                 body_payload_message = None \<rparr>),
       message_of = (\<lambda>t. case t of Codegen_error e \<Rightarrow> reason e | TypeError \<Rightarrow> ''TypeError'') \<rparr>"

definition example_props :: provider_props where
  "example_props = \<lparr> f2cUrl = ''/api/f2c'', l2cUrl = ''/api/l2c'', p2cUrl = ''/api/p2c'' \<rparr>"

section \<open>The SDK: reading the event stream\<close>

text \<open>
  Source: \<^verbatim>\<open>#processGenerationRequest\<close> of the class \<^verbatim>\<open>Anima\<close> (\<^verbatim>\<open>sdk/src/anima.ts\<close>), from
  the point where the reader of the response body exists: the read loop, the split of
  the buffer into lines, the \<^verbatim>\<open>switch\<close> on the message type, the \<^verbatim>\<open>finally\<close> block and the
  \<^verbatim>\<open>throw\<close> after the loop.
\<close>

text \<open>A value that \<^verbatim>\<open>JSON.parse\<close> yields.\<close>

datatype json =
  JNull
  | JBool bool
  | JNumber int
  | JString string
  | JArray "json list"
  | JObject "(string \<times> json) list"

text \<open>The arguments of the \<^verbatim>\<open>CodegenError\<close> constructor; name and reason are untyped here.\<close>

record codegen_error_args =
  e_name :: "json option"
  e_reason :: "json option"
  e_status :: "int option"

datatype sdk_thrown =
  CodegenError_thrown codegen_error_args
  | TypeError_thrown

text \<open>
  Reading a property: \<open>None\<close> is \<^verbatim>\<open>undefined\<close>. Reading from \<^verbatim>\<open>undefined\<close> or \<^verbatim>\<open>null\<close>
  throws a TypeError; an object yields the value stored under the key, and the keys the
  code reads are no properties of a boolean, a number, a string or an array.
\<close>

fun get_prop :: "json option \<Rightarrow> string \<Rightarrow> sdk_thrown + json option" where
  "get_prop None k = Inl TypeError_thrown"
| "get_prop (Some JNull) k = Inl TypeError_thrown"
| "get_prop (Some (JObject kvs)) k = Inr (map_of kvs k)"
| "get_prop (Some v) k = Inr None"

text \<open>The decimal numeral of an index, as a property key.\<close>

definition digit_char :: "nat \<Rightarrow> char" where
  "digit_char d = ''0123456789'' ! d"

fun decimal :: "nat \<Rightarrow> string" where
  "decimal n = (if n < 10 then [digit_char n] else decimal (n div 10) @ [digit_char (n mod 10)])"

declare decimal.simps [simp del]

text \<open>
  \<^verbatim>\<open>{...v}\<close>: the entries of an object; the elements of an array and the characters of a
  string under their indices; nothing for \<^verbatim>\<open>undefined\<close>, \<^verbatim>\<open>null\<close>, a boolean and a number.
\<close>

fun spread :: "json option \<Rightarrow> (string \<times> json) list" where
  "spread (Some (JObject kvs)) = kvs"
| "spread (Some (JArray vs)) = zip (map decimal [0..<length vs]) vs"
| "spread (Some (JString s)) = zip (map decimal [0..<length s]) (map (\<lambda>c. JString [c]) s)"
| "spread v = []"

text \<open>
  The handler is a function or an object of optional callbacks, given by the names of
  the callbacks it defines. A call is recorded with its argument: the message for a
  function, the fields of the argument for a callback (a positional argument under the
  empty field name).
\<close>

datatype handler = Handler_function | Handler_object "string list"

datatype handler_call =
  Message json
  | Callback string "(string \<times> json option) list"

datatype message_type = Codegen | L2c_messages | P2c_messages

record request_context =
  handler :: handler
  messageType :: "message_type option"
  normalizedJobType :: "string option"

record partial_result =
  r_sessionId :: "json option"
  r_figmaFileName :: "json option"
  r_figmaSelectedFrameName :: "json option"
  r_tokenUsage :: "json option"
  r_files :: "json option"
  r_assets :: "json option"

record sdk_run =
  run_result :: partial_result
  run_calls :: "handler_call list"

text \<open>
  How a step leaves the loops: it goes on, it returns the result, or it throws. The run
  is kept in every case, for the calls made so far.
\<close>

datatype flow =
  Continue sdk_run
  | Return sdk_run
  | Throw sdk_thrown sdk_run

text \<open>
  \<^verbatim>\<open>typeof handler === "function" ? handler(data) : handler.onX?.(args)\<close>. With an
  absent callback the arguments are not evaluated.
\<close>

definition emit ::
  "request_context \<Rightarrow> json \<Rightarrow> string \<Rightarrow> (sdk_thrown + (string \<times> json option) list) \<Rightarrow> sdk_run \<Rightarrow> flow" where
  "emit ctx msg cb args run =
     (case handler ctx of
        Handler_function \<Rightarrow> Continue (run\<lparr>run_calls := run_calls run @ [Message msg]\<rparr>)
      | Handler_object defined \<Rightarrow>
          if cb \<in> set defined
          then (case args of
                  Inl e \<Rightarrow> Throw e run
                | Inr a \<Rightarrow> Continue (run\<lparr>run_calls := run_calls run @ [Callback cb a]\<rparr>))
          else Continue run)"

text \<open>
  The message passed to a function handler for \<^verbatim>\<open>progress_messages_updated\<close> and
  \<^verbatim>\<open>job_status_updated\<close>: \<^verbatim>\<open>{...data, payload: {...data.payload, jobType}}\<close>.
\<close>

definition with_jobType :: "request_context \<Rightarrow> json \<Rightarrow> json" where
  "with_jobType ctx data =
     JObject
       (AList.update ''payload''
          (JObject
             (AList.update ''jobType''
                (case normalizedJobType ctx of None \<Rightarrow> JNull | Some t \<Rightarrow> JString t)
                (spread (case get_prop (Some data) ''payload'' of Inl _ \<Rightarrow> None | Inr v \<Rightarrow> v))))
          (spread (Some data)))"

text \<open>\<open>data.payload.k\<close>\<close>

definition payload_prop :: "json \<Rightarrow> string \<Rightarrow> sdk_thrown + json option" where
  "payload_prop data k =
     (case get_prop (Some data) ''payload'' of Inl e \<Rightarrow> Inl e | Inr payload \<Rightarrow> get_prop payload k)"

definition top_prop :: "json \<Rightarrow> string \<Rightarrow> json option" where
  "top_prop data k = (case get_prop (Some data) k of Inl _ \<Rightarrow> None | Inr v \<Rightarrow> v)"

text \<open>The cases of the \<^verbatim>\<open>switch\<close>, one definition for each.\<close>

definition case_queueing :: "request_context \<Rightarrow> json \<Rightarrow> sdk_run \<Rightarrow> flow" where
  "case_queueing ctx data run =
     emit ctx data ''onQueueing'' (Inr [(''sessionId'', top_prop data ''sessionId'')]) run"

definition case_start :: "request_context \<Rightarrow> json \<Rightarrow> sdk_run \<Rightarrow> flow" where
  "case_start ctx data run =
     emit ctx data ''onStart'' (Inr [(''sessionId'', top_prop data ''sessionId'')])
       (run\<lparr>run_result := (run_result run)\<lparr>r_sessionId := top_prop data ''sessionId''\<rparr>\<rparr>)"

definition case_pre_codegen :: "request_context \<Rightarrow> json \<Rightarrow> sdk_run \<Rightarrow> flow" where
  "case_pre_codegen ctx data run =
     (if messageType ctx = Some Codegen
      then emit ctx data ''onPreCodegen'' (Inr [(''message'', top_prop data ''message'')]) run
      else Continue run)"

definition case_assets_uploaded :: "request_context \<Rightarrow> json \<Rightarrow> sdk_run \<Rightarrow> flow" where
  "case_assets_uploaded ctx data run = emit ctx data ''onAssetsUploaded'' (Inr []) run"

definition case_assets_list :: "request_context \<Rightarrow> json \<Rightarrow> sdk_run \<Rightarrow> flow" where
  "case_assets_list ctx data run =
     (case payload_prop data ''assets'' of
        Inl e \<Rightarrow> Throw e run
      | Inr as \<Rightarrow>
          emit ctx data ''onAssetsList'' (Inr [([], top_prop data ''payload'')])
            (run\<lparr>run_result := (run_result run)\<lparr>r_assets := as\<rparr>\<rparr>))"

definition case_figma_metadata :: "request_context \<Rightarrow> json \<Rightarrow> sdk_run \<Rightarrow> flow" where
  "case_figma_metadata ctx data run =
     (if messageType ctx = Some Codegen
      then emit ctx data ''onFigmaMetadata''
             (Inr [(''figmaFileName'', top_prop data ''figmaFileName''),
                   (''figmaSelectedFrameName'', top_prop data ''figmaSelectedFrameName'')])
             (run\<lparr>run_result := (run_result run)
                    \<lparr>r_figmaFileName := top_prop data ''figmaFileName'',
                     r_figmaSelectedFrameName := top_prop data ''figmaSelectedFrameName''\<rparr>\<rparr>)
      else Continue run)"

text \<open>
  \<^verbatim>\<open>data.payload.status\<close> is read first and throws when there is no payload; the reads
  of \<^verbatim>\<open>progress\<close> and \<^verbatim>\<open>files\<close> that follow then succeed.
\<close>

definition case_generating_code :: "request_context \<Rightarrow> json \<Rightarrow> sdk_run \<Rightarrow> flow" where
  "case_generating_code ctx data run =
     (case payload_prop data ''status'' of
        Inl e \<Rightarrow> Throw e run
      | Inr st \<Rightarrow>
          (case (payload_prop data ''progress'', payload_prop data ''files'') of
             (Inr prog, Inr fs) \<Rightarrow>
               emit ctx data ''onGeneratingCode''
                 (Inr [(''status'', st), (''progress'', prog), (''files'', fs)])
                 (if st = Some (JString ''success'')
                  then run\<lparr>run_result := (run_result run)\<lparr>r_files := fs\<rparr>\<rparr> else run)
           | _ \<Rightarrow> Throw TypeError_thrown run))"

definition case_progress_messages_updated ::
  "request_context \<Rightarrow> json \<Rightarrow> sdk_run \<Rightarrow> flow" where
  "case_progress_messages_updated ctx data run =
     (case handler ctx of
        Handler_function \<Rightarrow>
          Continue (run\<lparr>run_calls := run_calls run @ [Message (with_jobType ctx data)]\<rparr>)
      | Handler_object _ \<Rightarrow>
          emit ctx data ''onProgressMessagesUpdated''
            (case payload_prop data ''progressMessages'' of
               Inl e \<Rightarrow> Inl e | Inr v \<Rightarrow> Inr [([], v)]) run)"

definition case_job_status_updated :: "request_context \<Rightarrow> json \<Rightarrow> sdk_run \<Rightarrow> flow" where
  "case_job_status_updated ctx data run =
     (case handler ctx of
        Handler_function \<Rightarrow>
          Continue (run\<lparr>run_calls := run_calls run @ [Message (with_jobType ctx data)]\<rparr>)
      | Handler_object _ \<Rightarrow>
          emit ctx data ''onJobStatusUpdated''
            (case payload_prop data ''jobStatus'' of
               Inl e \<Rightarrow> Inl e | Inr v \<Rightarrow> Inr [([], v)]) run)"

definition case_codegen_completed :: "request_context \<Rightarrow> json \<Rightarrow> sdk_run \<Rightarrow> flow" where
  "case_codegen_completed ctx data run = emit ctx data ''onCodegenCompleted'' (Inr []) run"

definition case_error :: "json \<Rightarrow> sdk_run \<Rightarrow> flow" where
  "case_error data run =
     (case (payload_prop data ''errorName'', payload_prop data ''reason'') of
        (Inr n, Inr r) \<Rightarrow>
          Throw (CodegenError_thrown \<lparr> e_name = n, e_reason = r, e_status = None \<rparr>) run
      | _ \<Rightarrow> Throw TypeError_thrown run)"

definition case_done :: "json \<Rightarrow> sdk_run \<Rightarrow> flow" where
  "case_done data run =
     (case (payload_prop data ''tokenUsage'', payload_prop data ''sessionId'') of
        (Inr usage, Inr sid) \<Rightarrow>
          Return (run\<lparr>run_result := (run_result run)\<lparr>r_tokenUsage := usage,
                                                      r_sessionId := sid\<rparr>\<rparr>)
      | _ \<Rightarrow> Throw TypeError_thrown run)"

text \<open>The \<^verbatim>\<open>switch\<close> for a message whose \<^verbatim>\<open>type\<close> is the string \<open>t\<close>; it has no default.\<close>

definition handle_type :: "request_context \<Rightarrow> string \<Rightarrow> json \<Rightarrow> sdk_run \<Rightarrow> flow" where
  "handle_type ctx t data run =
     (if t = ''queueing'' then case_queueing ctx data run
      else if t = ''start'' then case_start ctx data run
      else if t = ''pre_codegen'' then case_pre_codegen ctx data run
      else if t = ''assets_uploaded'' then case_assets_uploaded ctx data run
      else if t = ''assets_list'' then case_assets_list ctx data run
      else if t = ''figma_metadata'' then case_figma_metadata ctx data run
      else if t = ''generating_code'' then case_generating_code ctx data run
      else if t = ''progress_messages_updated'' then case_progress_messages_updated ctx data run
      else if t = ''job_status_updated'' then case_job_status_updated ctx data run
      else if t = ''codegen_completed'' \<or> t = ''generation_completed''
      then case_codegen_completed ctx data run
      else if t = ''error'' then case_error data run
      else if t = ''done'' then case_done data run
      else Continue run)"

text \<open>
  \<^verbatim>\<open>switch (data.type)\<close>: reading \<^verbatim>\<open>type\<close> from \<^verbatim>\<open>null\<close> throws; a type that is not one of
  the strings of the cases matches none.
\<close>

definition handle_message :: "request_context \<Rightarrow> json \<Rightarrow> sdk_run \<Rightarrow> flow" where
  "handle_message ctx data run =
     (case get_prop (Some data) ''type'' of
        Inl e \<Rightarrow> Throw e run
      | Inr (Some (JString t)) \<Rightarrow> handle_type ctx t data run
      | Inr _ \<Rightarrow> Continue run)"

text \<open>White space that \<^verbatim>\<open>trim\<close> removes, among the ASCII characters.\<close>

definition is_space :: "char \<Rightarrow> bool" where
  "is_space c = (c = CHR '' '' \<or> c = CHR 0x09 \<or> c = CHR 0x0A \<or> c = CHR 0x0B
                 \<or> c = CHR 0x0C \<or> c = CHR 0x0D)"

text \<open>
  One line of the \<^verbatim>\<open>for\<close> loop. \<open>JSON_parse\<close> is the parser of the platform: \<open>None\<close>
  when \<^verbatim>\<open>JSON.parse\<close> throws.
\<close>

definition process_line ::
  "(string \<Rightarrow> json option) \<Rightarrow> request_context \<Rightarrow> string \<Rightarrow> sdk_run \<Rightarrow> flow" where
  "process_line JSON_parse ctx line run =
     (if list_all is_space line \<or> take 1 line = '':'' then Continue run
      else if take 6 line = ''data: ''
      then (case JSON_parse (drop 6 line) of
              None \<Rightarrow> Continue run
            | Some data \<Rightarrow> handle_message ctx data run)
      else Continue run)"

fun process_lines ::
  "(string \<Rightarrow> json option) \<Rightarrow> request_context \<Rightarrow> string list \<Rightarrow> sdk_run \<Rightarrow> flow" where
  "process_lines JSON_parse ctx [] run = Continue run"
| "process_lines JSON_parse ctx (line # lines) run =
     (case process_line JSON_parse ctx line run of
        Continue run' \<Rightarrow> process_lines JSON_parse ctx lines run'
      | Return run' \<Rightarrow> Return run'
      | Throw e run' \<Rightarrow> Throw e run')"

text \<open>\<^verbatim>\<open>buffer.split("\n")\<close>: never empty.\<close>

fun split_nl :: "string \<Rightarrow> string list" where
  "split_nl [] = [ [] ]"
| "split_nl (c # cs) =
     (if c = CHR 0x0A then [] # split_nl cs
      else (case split_nl cs of [] \<Rightarrow> [ [c] ] | l # ls \<Rightarrow> (c # l) # ls))"

text \<open>The complete lines of a buffer, and what \<^verbatim>\<open>lines.pop() || ""\<close> keeps.\<close>

definition complete_lines :: "string \<Rightarrow> string list" where
  "complete_lines text = butlast (split_nl text)"

definition incomplete_line :: "string \<Rightarrow> string" where
  "incomplete_line text = (case rev (split_nl text) of [] \<Rightarrow> [] | l # _ \<Rightarrow> l)"

text \<open>
  The \<^verbatim>\<open>while (true)\<close> loop over the chunks the reader yields, already decoded; the
  list ends where the reader reports \<^verbatim>\<open>done\<close>, and the loop breaks.
\<close>

fun read_loop ::
  "(string \<Rightarrow> json option) \<Rightarrow> request_context \<Rightarrow> string list \<Rightarrow> string \<Rightarrow> sdk_run \<Rightarrow> flow" where
  "read_loop JSON_parse ctx [] buffer run = Continue run"
| "read_loop JSON_parse ctx (chunk # chunks) buffer run =
     (case process_lines JSON_parse ctx (complete_lines (buffer @ chunk)) run of
        Continue run' \<Rightarrow>
          read_loop JSON_parse ctx chunks (incomplete_line (buffer @ chunk)) run'
      | Return run' \<Rightarrow> Return run'
      | Throw e run' \<Rightarrow> Throw e run')"

definition connection_closed :: codegen_error_args where
  "connection_closed =
     \<lparr> e_name = Some (JString ''Connection''),
       e_reason = Some (JString ''Connection closed before the 'done' message''),
       e_status = Some 500 \<rparr>"

text \<open>
  The completion of the request: what the call does (it returns the result or throws)
  and whether \<^verbatim>\<open>reader.cancel()\<close> ran. The \<^verbatim>\<open>finally\<close> block runs on every way out of the
  \<^verbatim>\<open>try\<close>; after a loop that broke, the statement after it throws.
\<close>

datatype completion = Returns partial_result | Throws sdk_thrown

record finished_request =
  completion :: completion
  calls :: "handler_call list"
  reader_cancelled :: bool

definition empty_run :: sdk_run where
  "empty_run =
     \<lparr> run_result = \<lparr> r_sessionId = None, r_figmaFileName = None,
                      r_figmaSelectedFrameName = None, r_tokenUsage = None, r_files = None,
                      r_assets = None \<rparr>,
       run_calls = [] \<rparr>"

definition consume_stream ::
  "(string \<Rightarrow> json option) \<Rightarrow> request_context \<Rightarrow> string list \<Rightarrow> finished_request" where
  "consume_stream JSON_parse ctx chunks =
     (case read_loop JSON_parse ctx chunks [] empty_run of
        Return run \<Rightarrow>
          \<lparr> completion = Returns (run_result run), calls = run_calls run,
            reader_cancelled = True \<rparr>
      | Throw e run \<Rightarrow>
          \<lparr> completion = Throws e, calls = run_calls run, reader_cancelled = True \<rparr>
      | Continue run \<Rightarrow>
          \<lparr> completion = Throws (CodegenError_thrown connection_closed), calls = run_calls run,
            reader_cancelled = True \<rparr>)"

subsection \<open>Vocabulary of the properties\<close>

text \<open>All the lines of a stream that end with a line feed.\<close>

definition stream_lines :: "string list \<Rightarrow> string list" where
  "stream_lines chunks = complete_lines (concat chunks)"

text \<open>The labels of the cases of the \<^verbatim>\<open>switch\<close>.\<close>

definition case_labels :: "string list" where
  "case_labels =
     [''queueing'', ''start'', ''pre_codegen'', ''assets_uploaded'', ''assets_list'',
      ''figma_metadata'', ''generating_code'', ''progress_messages_updated'',
      ''job_status_updated'', ''codegen_completed'', ''generation_completed'', ''error'',
      ''done'']"

text \<open>A line that ends the request: processing it returns or throws.\<close>

definition ends_request :: "(string \<Rightarrow> json option) \<Rightarrow> request_context \<Rightarrow> string \<Rightarrow> bool" where
  "ends_request JSON_parse ctx line =
     (case process_line JSON_parse ctx line empty_run of Continue _ \<Rightarrow> False | _ \<Rightarrow> True)"

text \<open>
  A parser for the scenarios: it knows four texts and rejects every other one, as
  \<^verbatim>\<open>JSON.parse\<close> rejects \<^verbatim>\<open>{torn\<close>.
\<close>

definition example_parse :: "string \<Rightarrow> json option" where
  "example_parse s =
     (if s = ''{start}'' then Some (JObject [(''type'', JString ''start''), (''sessionId'', JString ''s1'')])
      else if s = ''{done}''
      then Some (JObject [(''type'', JString ''done''),
                          (''payload'', JObject [(''sessionId'', JString ''s1''),
                                                 (''tokenUsage'', JNumber 10)])])
      else if s = ''{completed}'' then Some (JObject [(''type'', JString ''codegen_completed'')])
      else if s = ''{aborted}'' then Some (JObject [(''type'', JString ''aborted'')])
      else None)"

definition example_context :: request_context where
  "example_context =
     \<lparr> handler = Handler_function, messageType = Some Codegen, normalizedJobType = Some ''f2c'' \<rparr>"

text \<open>A line carrying a \<^verbatim>\<open>done\<close> message.\<close>

definition is_done_line :: "(string \<Rightarrow> json option) \<Rightarrow> string \<Rightarrow> bool" where
  "is_done_line JSON_parse line =
     (take 6 line = ''data: ''
      \<and> (case JSON_parse (drop 6 line) of
            None \<Rightarrow> False
          | Some data \<Rightarrow> get_prop (Some data) ''type'' = Inr (Some (JString ''done''))))"

fun is_continue :: "flow \<Rightarrow> bool" where
  "is_continue (Continue _) = True"
| "is_continue _ = False"

text \<open>
  A stream in two chunks: a \<^verbatim>\<open>start\<close> message, a data line that is no JSON (cut by the
  chunk boundary), an empty line, a \<^verbatim>\<open>codegen_completed\<close> message, and a \<^verbatim>\<open>done\<close>
  message whose line feed never arrives. The second stream is the first without the
  malformed line, the third is the first with the last line feed.
\<close>

definition example_chunks :: "string list" where
  "example_chunks =
     [''data: {start}'' @ [CHR 0x0A] @ ''data: {to'',
      ''rn'' @ [CHR 0x0A] @ [CHR 0x0A] @ ''data: {completed}'' @ [CHR 0x0A] @ ''data: {done}'']"

definition example_chunks_without :: "string list" where
  "example_chunks_without =
     [''data: {start}'' @ [CHR 0x0A],
      [CHR 0x0A] @ ''data: {completed}'' @ [CHR 0x0A] @ ''data: {done}'']"

definition example_chunks_done :: "string list" where
  "example_chunks_done = example_chunks @ [ [CHR 0x0A] ]"

text \<open>
  A stream of three complete lines: a \<^verbatim>\<open>start\<close> message, an \<^verbatim>\<open>aborted\<close> message and a
  \<^verbatim>\<open>done\<close> message. The second stream is the first without the \<^verbatim>\<open>aborted\<close> message.
\<close>

definition example_chunks_aborted :: "string list" where
  "example_chunks_aborted =
     [''data: {start}'' @ [CHR 0x0A], ''data: {aborted}'' @ [CHR 0x0A],
      ''data: {done}'' @ [CHR 0x0A]]"

definition example_chunks_not_aborted :: "string list" where
  "example_chunks_not_aborted = [''data: {start}'' @ [CHR 0x0A], ''data: {done}'' @ [CHR 0x0A]]"

section \<open>Properties of the stream reducer\<close>

subsection \<open>Auxiliary facts\<close>

lemmas listener_defs =
  on_start_def on_queueing_def on_pre_codegen_def on_figma_metadata_def
  on_aborted_def on_generating_code_def on_progress_messages_updated_def
  on_job_status_updated_def on_codegen_completed_def on_generation_completed_def
  on_assets_uploaded_def on_assets_list_def on_done_def on_error_resumed_def classify_def
  stateUpdated_def settle_def set_tasks_def Let_def

lemma run_listeners_append: "run_listeners lfr (xs @ ys) js = run_listeners lfr ys (run_listeners lfr xs js)"
  by (induction xs arbitrary: js) simp_all

lemma listen_all_append: "listen_all (xs @ ys) js = listen_all ys (listen_all xs js)"
  by (induction xs arbitrary: js) simp_all

lemma resume_all_append:
  "resume_all fetched (xs @ ys) js = resume_all fetched ys (resume_all fetched xs js)"
  by (induction xs arbitrary: js) simp_all

lemma listen_all_without_errors:
  "listen_all (filter (\<lambda>ev. \<not> is_error_event ev) chunk) js = listen_all chunk js"
proof (induction chunk arbitrary: js)
  case Nil
  then show ?case by simp
next
  case (Cons ev chunk)
  then show ?case by (cases ev) simp_all
qed

lemma listen_all_errors: "listen_all (filter is_error_event chunk) js = js"
proof (induction chunk arbitrary: js)
  case Nil
  then show ?case by simp
next
  case (Cons ev chunk)
  then show ?case by (cases ev) simp_all
qed

lemma run_listeners_None: "run_listeners None evs js = listen_all evs js"
  by (induction evs arbitrary: js) simp_all

lemma run_listeners_without_errors:
  "run_listeners lfr (filter (\<lambda>ev. \<not> is_error_event ev) chunk) js = listen_all chunk js"
proof (induction chunk arbitrary: js)
  case Nil
  then show ?case by simp
next
  case (Cons ev chunk)
  then show ?case by (cases lfr; cases ev) simp_all
qed

lemma run_listeners_errors:
  "run_listeners (Some fetched) (filter is_error_event chunk) js
     = resume_all fetched (error_frames chunk) js"
proof (induction chunk arbitrary: js)
  case Nil
  then show ?case by simp
next
  case (Cons ev chunk)
  then show ?case by (cases ev) simp_all
qed

lemma deliver_chunk_effects:
  "deliver_chunk lfr chunk js = run_listeners lfr (resumed_last chunk) js"
proof (cases lfr)
  case None
  then show ?thesis
    by (simp add: deliver_chunk_def resumed_last_def run_listeners_None listen_all_append
        listen_all_without_errors listen_all_errors)
next
  case (Some fetched)
  then show ?thesis
    by (simp add: deliver_chunk_def resumed_last_def run_listeners_append
        run_listeners_without_errors run_listeners_errors)
qed

lemma deliver_effects:
  "deliver lfr chunks js = run_listeners lfr (effect_order chunks) js"
  by (induction chunks arbitrary: js)
     (simp_all add: effect_order_def deliver_chunk_effects run_listeners_append)

lemma subscription_effects:
  "subscribeToJobStream lfr chunks = run_listeners lfr (effect_order chunks) subscribed"
  by (simp add: subscribeToJobStream_def deliver_effects)

lemma deliver_append: "deliver lfr (xs @ ys) js = deliver lfr ys (deliver lfr xs js)"
  by (induction xs arbitrary: js) simp_all

lemma run_listener_snapshots:
  "snapshots (run_listener lfr ev js) = snapshots js
   \<or> snapshots (run_listener lfr ev js) = snapshots js @ [state (run_listener lfr ev js)]"
  by (cases lfr; cases ev)
     (auto simp: listener_defs split: option.splits fetch_promise.splits error_frame.splits)

lemma run_listeners_snapshots_grow: "\<exists>ys. snapshots (run_listeners lfr evs js) = snapshots js @ ys"
proof (induction evs arbitrary: js)
  case Nil
  then show ?case by simp
next
  case (Cons ev evs)
  obtain ys where ys: "snapshots (run_listeners lfr evs (run_listener lfr ev js)) = snapshots (run_listener lfr ev js) @ ys"
    using Cons.IH by blast
  from run_listener_snapshots[of lfr ev js] show ?case
    by (auto simp: ys)
qed

lemma mono_inv_run_listener:
  fixes f :: "codegen_state \<Rightarrow> nat"
  assumes step: "f (state js) \<le> f (state (run_listener lfr ev js))"
    and inv: "mono_inv f js"
  shows "mono_inv f (run_listener lfr ev js)"
proof -
  have bound: "\<forall>s\<in>set (snapshots js). f s \<le> f (state (run_listener lfr ev js))"
    using inv step by (auto simp: mono_inv_def intro: order_trans)
  from run_listener_snapshots[of lfr ev js] show ?thesis
  proof
    assume "snapshots (run_listener lfr ev js) = snapshots js"
    then show ?thesis using inv bound by (simp add: mono_inv_def)
  next
    assume "snapshots (run_listener lfr ev js) = snapshots js @ [state (run_listener lfr ev js)]"
    then show ?thesis using inv bound by (simp add: mono_inv_def sorted_append)
  qed
qed

lemma mono_inv_run_listeners:
  fixes f :: "codegen_state \<Rightarrow> nat"
  assumes step: "\<And>ev js. f (state js) \<le> f (state (run_listener lfr ev js))"
    and inv: "mono_inv f js"
  shows "mono_inv f (run_listeners lfr evs js)"
  using inv
  by (induction evs arbitrary: js) (simp_all add: mono_inv_run_listener step)

lemma mono_inv_subscribed: "mono_inv f subscribed"
  by (simp add: mono_inv_def subscribed_def stateUpdated_def)

lemma snapshots_sorted:
  fixes f :: "codegen_state \<Rightarrow> nat"
  assumes step: "\<And>ev js. f (state js) \<le> f (state (run_listener lfr ev js))"
  shows "sorted (map f (snapshots (subscribeToJobStream lfr chunks)))"
  using mono_inv_run_listeners[of f lfr subscribed "effect_order chunks", OF step mono_inv_subscribed]
  by (simp add: mono_inv_def subscription_effects)

lemma status_rank_step:
  "status_rank (status (state js)) \<le> status_rank (status (state (run_listener lfr ev js)))"
proof -
  have "status_rank s \<le> 2" for s by (cases s) simp_all
  then show ?thesis
    by (cases lfr; cases ev)
       (auto simp: listener_defs split: option.splits fetch_promise.splits error_frame.splits)
qed

lemma started_fetchDesign_step:
  "started (fetchDesign (tasks (state js))) \<le> started (fetchDesign (tasks (state (run_listener lfr ev js))))"
  by (cases lfr; cases ev)
     (auto simp: listener_defs started_def split: option.splits fetch_promise.splits error_frame.splits)

lemma started_codeGeneration_step:
  "started (codeGeneration (tasks (state js))) \<le> started (codeGeneration (tasks (state (run_listener lfr ev js))))"
  by (cases lfr; cases ev)
     (auto simp: listener_defs started_def split: option.splits fetch_promise.splits error_frame.splits)

lemma started_uploadAssets_step:
  "started (uploadAssets (tasks (state js))) \<le> started (uploadAssets (tasks (state (run_listener lfr ev js))))"
  by (cases lfr; cases ev)
     (auto simp: listener_defs started_def split: option.splits fetch_promise.splits error_frame.splits)

lemma hd_snapshots: "hd (snapshots (subscribeToJobStream lfr chunks)) = hd (snapshots subscribed)"
  using run_listeners_snapshots_grow[of lfr "effect_order chunks" subscribed]
  by (auto simp: subscription_effects subscribed_def stateUpdated_def)

lemma sorted_started_nth:
  assumes "sorted (map (\<lambda>s. started (g s)) snaps)" "i < j" "j < length snaps" "g (snaps ! i) \<noteq> T_pending"
  shows "g (snaps ! j) \<noteq> T_pending"
proof -
  have "map (\<lambda>s. started (g s)) snaps ! i \<le> map (\<lambda>s. started (g s)) snaps ! j"
    using assms by (intro sorted_nth_mono) auto
  then show ?thesis using assms by (auto simp: started_def split: if_splits)
qed

lemma task_rank_le: "task_rank t \<le> 2"
  by (cases t) simp_all

lemma run_listener_tasks:
  "(task_forward (fetchDesign (tasks (state js))) (fetchDesign (tasks (state (run_listener lfr ev js))))
      \<or> sets_fetchDesign_running ev \<and> fetchDesign (tasks (state (run_listener lfr ev js))) = T_running)
   \<and> (task_forward (codeGeneration (tasks (state js))) (codeGeneration (tasks (state (run_listener lfr ev js))))
      \<or> sets_codeGeneration_running ev \<and> codeGeneration (tasks (state (run_listener lfr ev js))) = T_running)
   \<and> (task_forward (uploadAssets (tasks (state js))) (uploadAssets (tasks (state (run_listener lfr ev js))))
      \<or> sets_uploadAssets_running ev \<and> uploadAssets (tasks (state (run_listener lfr ev js))) = T_running)"
  by (cases lfr; cases ev)
     (auto simp: listener_defs task_forward_def sets_fetchDesign_running_def
        sets_codeGeneration_running_def sets_uploadAssets_running_def
        task_rank_le split: option.splits fetch_promise.splits error_frame.splits)

lemma on_error_transient:
  assumes "ok r" "transient_frame f"
  shows "on_error_resumed (Fetch_resolved r) f js = classify (frame_payload f) js"
  using assms
  by (auto simp: on_error_resumed_def transient_frame_def frame_payload_def
      split: error_frame.splits option.splits)

lemma transient_not_unrecoverable:
  "transient_frame f \<Longrightarrow> \<not> isUnrecoverableError (frame_payload f)"
  by (auto simp: transient_frame_def frame_payload_def isUnrecoverableError_def
      split: error_frame.splits option.splits)

lemma classify_tolerated:
  assumes "\<not> isUnrecoverableError p" "errorCount js < MAX_RETRIES_AFTER_ERROR"
  shows "classify p js = js\<lparr>errorCount := errorCount js + 1\<rparr>"
  using assms by (simp add: classify_def Let_def)

lemma classify_ceiling:
  assumes "errorCount js \<ge> MAX_RETRIES_AFTER_ERROR"
  shows "classify p js =
     settle (Resolved None (Some (codegenError p)))
       (stateUpdated (js\<lparr>errorCount := errorCount js + 1,
           state := (state js)\<lparr>status := S_error, error := Some (codegenError p)\<rparr>\<rparr>))"
  using assms by (simp add: classify_def Let_def)
lemma listen_errorCount:
  "listen ev (js\<lparr>errorCount := n\<rparr>) = (listen ev js)\<lparr>errorCount := n\<rparr>"
  by (cases ev) (simp_all add: listener_defs split: option.splits)

lemma listen_keeps_errorCount: "errorCount (listen ev js) = errorCount js"
  by (cases ev) (simp_all add: listener_defs split: option.splits)

lemma listen_all_errorCount:
  "listen_all evs (js\<lparr>errorCount := n\<rparr>) = (listen_all evs js)\<lparr>errorCount := n\<rparr>"
  by (induction evs arbitrary: js) (simp_all add: listen_errorCount)

lemma listen_all_keeps_errorCount: "errorCount (listen_all evs js) = errorCount js"
  by (induction evs arbitrary: js) (simp_all add: listen_keeps_errorCount)

lemma listen_all_error_first: "listen_all (Error f # evs) js = listen_all evs js"
  by simp

lemma error_frames_append: "error_frames (xs @ ys) = error_frames xs @ error_frames ys"
proof (induction xs)
  case Nil
  then show ?case by simp
next
  case (Cons ev xs)
  then show ?case by (cases ev) simp_all
qed

lemma error_frames_errors: "error_frames (filter is_error_event evs) = error_frames evs"
  by (induction evs rule: error_frames.induct) simp_all

lemma error_frames_others: "error_frames (filter (\<lambda>ev. \<not> is_error_event ev) evs) = []"
  by (induction evs rule: error_frames.induct) simp_all

lemma errors_are_frames: "filter is_error_event evs = map Error (error_frames evs)"
  by (induction evs rule: error_frames.induct) simp_all

lemma error_frames_resumed_last: "error_frames (resumed_last chunk) = error_frames chunk"
  by (simp add: resumed_last_def error_frames_append error_frames_errors error_frames_others)

lemma error_frames_effect_order:
  "error_frames (effect_order chunks) = error_frames (concat chunks)"
  by (induction chunks)
     (simp_all add: effect_order_def error_frames_append error_frames_resumed_last)

lemma listen_all_resumed_last: "listen_all (resumed_last chunk) js = listen_all chunk js"
  by (simp add: resumed_last_def listen_all_append listen_all_without_errors listen_all_errors)

lemma listen_all_effect_order: "listen_all (effect_order chunks) js = listen_all (concat chunks) js"
  by (induction chunks arbitrary: js)
     (simp_all add: effect_order_def listen_all_append listen_all_resumed_last)

lemma without_errors_effects:
  "subscribeToJobStream lfr (map without_errors chunks) = listen_all (concat chunks) subscribed"
proof -
  have 1: "resumed_last (without_errors c) = without_errors c" for c
    by (simp add: resumed_last_def without_errors_def)
  have 2: "run_listeners lfr (concat (map without_errors cs)) js = listen_all (concat cs) js"
    for cs js
    by (induction cs arbitrary: js)
       (simp_all add: run_listeners_append without_errors_def run_listeners_without_errors
          listen_all_append)
  show ?thesis
    by (simp add: subscription_effects effect_order_def comp_def 1)
       (simp add: 2[unfolded comp_def, simplified] flip: map_map)
qed

lemma run_listeners_tolerated:
  assumes "ok r" "\<forall>f\<in>set (error_frames evs). transient_frame f"
    "errorCount js + length (error_frames evs) \<le> MAX_RETRIES_AFTER_ERROR"
  shows "run_listeners (Some (Fetch_resolved r)) evs js
           = (listen_all evs js)\<lparr>errorCount := errorCount js + length (error_frames evs)\<rparr>"
  using assms
proof (induction evs arbitrary: js)
  case Nil
  then show ?case by simp
next
  case (Cons ev evs)
  show ?case
  proof (cases "is_error_event ev")
    case True
    then obtain f where ev: "ev = Error f" by (cases ev) auto
    have 1: "on_error_resumed (Fetch_resolved r) f js = js\<lparr>errorCount := errorCount js + 1\<rparr>"
      using Cons.prems ev
      by (simp add: on_error_transient classify_tolerated transient_not_unrecoverable)
    show ?thesis
      using Cons.prems ev
      by (simp add: 1 Cons.IH listen_all_errorCount)
  next
    case False
    then have e: "error_frames (ev # evs) = error_frames evs"
      and l: "run_listener (Some (Fetch_resolved r)) ev js = listen ev js"
      by (cases ev; simp)+
    show ?thesis
      using Cons.prems e
      by (simp add: l Cons.IH listen_keeps_errorCount del: error_frames.simps)
  qed
qed

lemma run_listeners_counts:
  assumes "ok r" "\<forall>f\<in>set (error_frames evs). transient_frame f"
  shows "errorCount (run_listeners (Some (Fetch_resolved r)) evs js)
           = errorCount js + length (error_frames evs)"
  using assms
proof (induction evs arbitrary: js)
  case Nil
  then show ?case by simp
next
  case (Cons ev evs)
  show ?case
  proof (cases "is_error_event ev")
    case True
    then obtain f where ev: "ev = Error f" by (cases ev) auto
    have "errorCount (on_error_resumed (Fetch_resolved r) f js) = errorCount js + 1"
      using Cons.prems ev
      by (simp add: on_error_transient classify_def Let_def settle_def stateUpdated_def
          split: option.splits)
    then show ?thesis using Cons ev by simp
  next
    case False
    then have e: "error_frames (ev # evs) = error_frames evs"
      and l: "run_listener (Some (Fetch_resolved r)) ev js = listen ev js"
      by (cases ev; simp)+
    show ?thesis
      using Cons.prems e Cons.IH[of "listen ev js"]
      by (simp add: l listen_keeps_errorCount del: error_frames.simps)
  qed
qed

lemma run_listeners_keeps_files:
  assumes "\<forall>ev\<in>set evs. \<not> stashes_files ev"
  shows "files (acc_result (run_listeners lfr evs js)) = files (acc_result js)"
  using assms
proof (induction evs arbitrary: js)
  case Nil
  then show ?case by simp
next
  case (Cons ev evs)
  have "files (acc_result (run_listener lfr ev js)) = files (acc_result js)"
    using Cons.prems
    by (cases lfr; cases ev)
       (auto simp: listener_defs stashes_files_def
          split: option.splits fetch_promise.splits error_frame.splits)
  then show ?case using Cons by simp
qed

lemma effect_order_append: "effect_order (xs @ ys) = effect_order xs @ effect_order ys"
  by (simp add: effect_order_def)

lemma no_error_frames: "error_frames evs = [] \<Longrightarrow> filter is_error_event evs = []"
  by (simp add: errors_are_frames)

lemma resumed_last_insert:
  assumes "error_frames post = []"
  shows "resumed_last (pre @ Error f # post) = resumed_last (pre @ post) @ [Error f]"
  using no_error_frames[OF assms] by (simp add: resumed_last_def)

lemma error_frames_map_Error: "error_frames (map Error fs) = fs"
  by (induction fs) simp_all

lemma listen_all_map_Error: "listen_all (map Error fs) js = js"
  by (induction fs) simp_all

lemma set_effect_order: "set (effect_order chunks) = set (concat chunks)"
proof -
  have "set (resumed_last c) = set c" for c
    by (auto simp: resumed_last_def)
  then show ?thesis
    by (simp add: effect_order_def)
qed

subsection \<open>C1: the retry ceiling\<close>

text \<open>
  C1 as the specification words it: eleven transient \<^verbatim>\<open>error\<close> frames end the job with
  the fallback name \<^verbatim>\<open>Unknown error\<close>. The listener builds the error from the frame at
  hand (\<^verbatim>\<open>errorPayload?.payload.name ?? "Unknown error"\<close>), so eleven frames named
  \<^verbatim>\<open>Foo\<close>, a name outside the fatal list, end the job with an error named \<^verbatim>\<open>Foo\<close>.
\<close>

theorem retry_ceiling_named_frame_counterexample:
  "transient_frame
     (MessageEvent (Some \<lparr> p_name = Some ''Foo'', p_message = Some ''bar'',
                            p_status = None, p_detail = None \<rparr>))
   \<and> settled
       (subscribeToJobStream
          (Some (Fetch_resolved \<lparr> ok = True, response_status = 200, body_text = None,
                                  body_payload_message = None \<rparr>))
          (replicate 11
             [Error (MessageEvent (Some \<lparr> p_name = Some ''Foo'', p_message = Some ''bar'',
                                           p_status = None, p_detail = None \<rparr>))]))
     = Some (Resolved None
               (Some \<lparr> name = ''Foo'', reason = ''bar'', http_status = None, detail = None \<rparr>))"
  by (simp add: subscribeToJobStream_def deliver_chunk_def subscribed_def stateUpdated_def
      on_error_resumed_def classify_def codegenError_def isUnrecoverableError_def
      MAX_RETRIES_AFTER_ERROR_def settle_def initialProgress_def empty_result_def
      transient_frame_def numeral_eq_Suc Let_def)

text \<open>
  C1, amended. The events arrive in chunks; the listener of an \<^verbatim>\<open>error\<close> frame does its
  work when it is resumed, after the synchronous listeners of the frames of its chunk.
  The fetch response being \<^verbatim>\<open>ok\<close>, let every \<^verbatim>\<open>error\<close> frame of the stream be transient,
  the other events being any events, in any order and in any chunks.
  \<^item> \<^verbatim>\<open>errorCount\<close> ends as the number of \<^verbatim>\<open>error\<close> frames: no other listener touches it.
  \<^item> Up to ten \<^verbatim>\<open>error\<close> frames are only counted: the job ends exactly as it does on the
    stream without them, but for the counter. So ten frames and then \<^verbatim>\<open>done\<close> resolve the
    job with its result and status \<^verbatim>\<open>success\<close>.
  \<^item> When an eleventh frame \<open>f\<close> is the last \<^verbatim>\<open>error\<close> frame and arrives in the last
    chunk, its listener makes the counter exceed the ceiling of ten: the state that the
    stream without its \<^verbatim>\<open>error\<close> frames ends in gets status \<^verbatim>\<open>error\<close> and the error built
    from \<open>f\<close>, that state is sent as one more snapshot, and the promise resolves with
    this error unless it was settled before (by a \<^verbatim>\<open>done\<close> event, even one that follows
    \<open>f\<close> in its chunk). The name of the error is the name in the payload of \<open>f\<close>, and
    \<^verbatim>\<open>Unknown error\<close> only when \<open>f\<close> carries no payload or no name.
\<close>

theorem retry_ceiling:
  assumes "ok r"
  shows "((\<forall>f\<in>set (error_frames (concat chunks)). transient_frame f) \<longrightarrow>
            errorCount (subscribeToJobStream (Some (Fetch_resolved r)) chunks)
              = length (error_frames (concat chunks)))
       \<and> ((\<forall>f\<in>set (error_frames (concat chunks)). transient_frame f)
            \<and> length (error_frames (concat chunks)) \<le> 10 \<longrightarrow>
            subscribeToJobStream (Some (Fetch_resolved r)) chunks
              = (subscribeToJobStream (Some (Fetch_resolved r)) (map without_errors chunks))
                  \<lparr>errorCount := length (error_frames (concat chunks))\<rparr>)
       \<and> ((\<forall>f\<in>set ts. transient_frame f) \<and> length ts \<le> 10
            \<and> concat chunks' = map Error ts @ [Done usage sid] \<longrightarrow>
            (let js = subscribeToJobStream (Some (Fetch_resolved r)) chunks'
             in settled js
                  = Some (Resolved
                            (Some (empty_result\<lparr>tokenUsage := Some usage, sessionId := Some sid\<rparr>))
                            None)
                \<and> status (state js) = S_success \<and> errorCount js = length ts))
       \<and> (error_frames (concat (cs @ [c])) = fs @ [f] \<and> length fs = 10
            \<and> error_frames c \<noteq> [] \<and> (\<forall>x\<in>set (fs @ [f]). transient_frame x) \<longrightarrow>
            (let js0 = subscribeToJobStream (Some (Fetch_resolved r)) (map without_errors (cs @ [c]));
                 js = subscribeToJobStream (Some (Fetch_resolved r)) (cs @ [c])
             in errorCount js = 11
                \<and> state js = (state js0)\<lparr>status := S_error,
                                            error := Some (codegenError (frame_payload f))\<rparr>
                \<and> snapshots js = snapshots js0 @ [state js]
                \<and> settled js
                    = (case settled js0 of
                         None \<Rightarrow> Some (Resolved None (Some (codegenError (frame_payload f))))
                       | Some out \<Rightarrow> Some out)
                \<and> name (codegenError (frame_payload f))
                    = (case frame_payload f of None \<Rightarrow> ''Unknown error''
                       | Some p \<Rightarrow> (case p_name p of None \<Rightarrow> ''Unknown error''
                                   | Some n \<Rightarrow> n))))"
proof (intro conjI impI)
  assume "\<forall>f\<in>set (error_frames (concat chunks)). transient_frame f"
  then show "errorCount (subscribeToJobStream (Some (Fetch_resolved r)) chunks)
              = length (error_frames (concat chunks))"
    using run_listeners_counts[OF assms, of "effect_order chunks" subscribed]
    by (simp add: subscription_effects error_frames_effect_order)
       (simp add: subscribed_def stateUpdated_def)
next
  assume a: "(\<forall>f\<in>set (error_frames (concat chunks)). transient_frame f)
            \<and> length (error_frames (concat chunks)) \<le> 10"
  have "run_listeners (Some (Fetch_resolved r)) (effect_order chunks) subscribed
          = (listen_all (effect_order chunks) subscribed)
              \<lparr>errorCount := errorCount subscribed + length (error_frames (effect_order chunks))\<rparr>"
    using a by (intro run_listeners_tolerated[OF assms])
      (simp_all add: error_frames_effect_order MAX_RETRIES_AFTER_ERROR_def subscribed_def
         stateUpdated_def)
  then show "subscribeToJobStream (Some (Fetch_resolved r)) chunks
              = (subscribeToJobStream (Some (Fetch_resolved r)) (map without_errors chunks))
                  \<lparr>errorCount := length (error_frames (concat chunks))\<rparr>"
    by (simp add: subscription_effects[of _ chunks] without_errors_effects
        error_frames_effect_order listen_all_effect_order)
       (simp add: subscribed_def stateUpdated_def)
next
  assume a: "(\<forall>f\<in>set ts. transient_frame f) \<and> length ts \<le> 10
            \<and> concat chunks' = map Error ts @ [Done usage sid]"
  have "run_listeners (Some (Fetch_resolved r)) (effect_order chunks') subscribed
          = (listen_all (effect_order chunks') subscribed)
              \<lparr>errorCount := errorCount subscribed + length (error_frames (effect_order chunks'))\<rparr>"
    using a by (intro run_listeners_tolerated[OF assms])
      (simp_all add: error_frames_effect_order error_frames_append error_frames_map_Error
         MAX_RETRIES_AFTER_ERROR_def subscribed_def stateUpdated_def)
  then show "let js = subscribeToJobStream (Some (Fetch_resolved r)) chunks'
        in settled js
             = Some (Resolved
                       (Some (empty_result\<lparr>tokenUsage := Some usage, sessionId := Some sid\<rparr>))
                       None)
           \<and> status (state js) = S_success \<and> errorCount js = length ts"
    using a
    by (simp add: subscription_effects error_frames_effect_order listen_all_effect_order
        listen_all_append listen_all_map_Error error_frames_append error_frames_map_Error)
       (simp add: subscribed_def stateUpdated_def on_done_def settle_def Let_def)
next
  assume a: "error_frames (concat (cs @ [c])) = fs @ [f] \<and> length fs = 10
            \<and> error_frames c \<noteq> [] \<and> (\<forall>x\<in>set (fs @ [f]). transient_frame x)"
  let ?lfr = "Some (Fetch_resolved r)"
  have ecs: "error_frames (concat cs) @ butlast (error_frames c) = fs"
    and ec: "error_frames c = butlast (error_frames c) @ [f]"
  proof -
    have "error_frames (concat cs) @ error_frames c = fs @ [f]"
      using a by (simp add: error_frames_append)
    moreover have "error_frames c = butlast (error_frames c) @ [last (error_frames c)]"
      using a by simp
    ultimately have "(error_frames (concat cs) @ butlast (error_frames c)) @ [last (error_frames c)]
                       = fs @ [f]"
      by (metis append.assoc)
    then have both: "error_frames (concat cs) @ butlast (error_frames c) = fs \<and> last (error_frames c) = f"
      by simp
    then show "error_frames (concat cs) @ butlast (error_frames c) = fs"
      by simp
    have "butlast (error_frames c) @ [last (error_frames c)] = error_frames c"
      using a by (intro append_butlast_last_id) simp
    then show "error_frames c = butlast (error_frames c) @ [f]"
      using both by simp
  qed
  define before where
    "before = effect_order cs @ without_errors c @ map Error (butlast (error_frames c))"
  have order: "effect_order (cs @ [c]) = before @ [Error f]"
  proof -
    have "filter is_error_event c = map Error (butlast (error_frames c)) @ [Error f]"
      using ec by (metis errors_are_frames list.simps(8,9) map_append)
    then show ?thesis
      by (simp add: before_def effect_order_def resumed_last_def without_errors_def)
  qed
  have frames_before: "error_frames before = fs"
    using ecs
    by (simp add: before_def error_frames_append error_frames_effect_order without_errors_def
        error_frames_others error_frames_map_Error)
  have listen_before: "listen_all before subscribed = listen_all (concat (cs @ [c])) subscribed"
    by (simp add: before_def listen_all_append listen_all_effect_order without_errors_def
        listen_all_without_errors listen_all_map_Error)
  have js10: "run_listeners ?lfr before subscribed
                = (listen_all (concat (cs @ [c])) subscribed)\<lparr>errorCount := 10\<rparr>"
    using run_listeners_tolerated[OF assms, of before subscribed] a frames_before
    by (simp add: MAX_RETRIES_AFTER_ERROR_def listen_before)
       (simp add: subscribed_def stateUpdated_def)
  have js0: "subscribeToJobStream ?lfr (map without_errors (cs @ [c]))
               = listen_all (concat (cs @ [c])) subscribed"
    by (rule without_errors_effects)
  have tf: "transient_frame f" using a by simp
  show "let js0 = subscribeToJobStream ?lfr (map without_errors (cs @ [c]));
            js = subscribeToJobStream ?lfr (cs @ [c])
        in errorCount js = 11
           \<and> state js = (state js0)\<lparr>status := S_error,
                                       error := Some (codegenError (frame_payload f))\<rparr>
           \<and> snapshots js = snapshots js0 @ [state js]
           \<and> settled js
               = (case settled js0 of
                    None \<Rightarrow> Some (Resolved None (Some (codegenError (frame_payload f))))
                  | Some out \<Rightarrow> Some out)
           \<and> name (codegenError (frame_payload f))
               = (case frame_payload f of None \<Rightarrow> ''Unknown error''
                  | Some p \<Rightarrow> (case p_name p of None \<Rightarrow> ''Unknown error'' | Some n \<Rightarrow> n))"
    unfolding Let_def js0
    by (simp add: subscription_effects[of _ "cs @ [c]"] order run_listeners_append js10
        on_error_transient[OF assms tf] classify_ceiling MAX_RETRIES_AFTER_ERROR_def)
       (simp add: stateUpdated_def settle_def codegenError_def split: option.splits)
qed

text \<open>
  The theorem at three streams of transport errors (\<open>ErrorEvent\<close>): ten of them, then
  \<^verbatim>\<open>done\<close>, where the job succeeds; eleven of them, where the fallback name does appear;
  and eleven of them with a \<^verbatim>\<open>done\<close> event behind them in the same chunk, where the
  \<^verbatim>\<open>done\<close> listener runs first and the promise stays resolved with the result while the
  status ends as \<^verbatim>\<open>error\<close>.
\<close>

theorem retry_ceiling_witness:
  "ok \<lparr> ok = True, response_status = 200, body_text = None,
        body_payload_message = None \<rparr>
   \<and> list_all transient_frame (replicate 10 ErrorEvent)
   \<and> length (replicate 10 ErrorEvent) \<le> 10
   \<and> concat (replicate 10 [Error ErrorEvent] @ [ [Done 7 ''s1''] ])
       = map Error (replicate 10 ErrorEvent) @ [Done 7 ''s1'']
   \<and> settled
       (subscribeToJobStream
          (Some (Fetch_resolved \<lparr> ok = True, response_status = 200, body_text = None,
                                  body_payload_message = None \<rparr>))
          (replicate 10 [Error ErrorEvent] @ [ [Done 7 ''s1''] ]))
     = Some (Resolved
               (Some \<lparr> sessionId = Some ''s1'', figmaFileName = None,
                       figmaSelectedFrameName = None, tokenUsage = Some 7, files = None,
                       assets = None \<rparr>)
               None)
   \<and> error_frames (concat (replicate 10 [Error ErrorEvent] @ [ [Error ErrorEvent] ]))
       = replicate 10 ErrorEvent @ [ErrorEvent]
   \<and> length (replicate 10 ErrorEvent) = 10
   \<and> error_frames [Error ErrorEvent] \<noteq> []
   \<and> list_all transient_frame (replicate 10 ErrorEvent @ [ErrorEvent])
   \<and> settled
       (subscribeToJobStream
          (Some (Fetch_resolved \<lparr> ok = True, response_status = 200, body_text = None,
                                  body_payload_message = None \<rparr>))
          (replicate 10 [Error ErrorEvent] @ [ [Error ErrorEvent] ]))
     = Some (Resolved None
               (Some \<lparr> name = ''Unknown error'', reason = ''Unknown'', http_status = None,
                       detail = None \<rparr>))
   \<and> error_frames (concat ([] @ [replicate 11 (Error ErrorEvent) @ [Done 7 ''s1'']]))
       = replicate 10 ErrorEvent @ [ErrorEvent]
   \<and> error_frames (replicate 11 (Error ErrorEvent) @ [Done 7 ''s1'']) \<noteq> []
   \<and> (let js = subscribeToJobStream
                      (Some (Fetch_resolved \<lparr> ok = True, response_status = 200, body_text = None,
                                              body_payload_message = None \<rparr>))
                      [replicate 11 (Error ErrorEvent) @ [Done 7 ''s1'']]
      in status (state js) = S_error
         \<and> settled js
             = Some (Resolved
                       (Some \<lparr> sessionId = Some ''s1'', figmaFileName = None,
                               figmaSelectedFrameName = None, tokenUsage = Some 7, files = None,
                               assets = None \<rparr>)
                       None))"
proof -
  let ?r = "\<lparr> ok = True, response_status = 200, body_text = None,
              body_payload_message = None \<rparr>"
  let ?lfr = "Some (Fetch_resolved ?r)"
  let ?ten = "replicate 10 [Error ErrorEvent]"
  let ?c = "replicate 11 (Error ErrorEvent) @ [Done 7 ''s1'']"
  have h1: "ok ?r"
    by simp
  have t10: "\<forall>f\<in>set (replicate 10 ErrorEvent). transient_frame f"
    by (simp add: transient_frame_def)
  have t11: "\<forall>x\<in>set (replicate 10 ErrorEvent @ [ErrorEvent]). transient_frame x"
    by (simp add: transient_frame_def)
  have c10: "concat (?ten @ [ [Done 7 ''s1''] ]) = map Error (replicate 10 ErrorEvent) @ [Done 7 ''s1'']"
    by (simp add: numeral_eq_Suc)
  have e11: "error_frames (concat (?ten @ [ [Error ErrorEvent] ])) = replicate 10 ErrorEvent @ [ErrorEvent]"
    by (simp add: numeral_eq_Suc)
  have e11c: "error_frames (concat ([] @ [?c])) = replicate 10 ErrorEvent @ [ErrorEvent]"
    by (simp add: numeral_eq_Suc)
  have ne: "error_frames ?c \<noteq> []"
    by (simp add: numeral_eq_Suc)
  have s0: "settled (subscribeToJobStream ?lfr (map without_errors (?ten @ [ [Error ErrorEvent] ])))
              = None"
    by (simp add: numeral_eq_Suc without_errors_def subscribeToJobStream_def deliver_chunk_def
        subscribed_def stateUpdated_def)
  have s0c: "subscribeToJobStream ?lfr (map without_errors ([] @ [?c]))
               = on_done 7 ''s1'' subscribed"
    by (simp add: numeral_eq_Suc without_errors_def subscribeToJobStream_def deliver_chunk_def)
  have resolved: "settled (on_done 7 ''s1'' subscribed)
                = Some (Resolved
                          (Some \<lparr> sessionId = Some ''s1'', figmaFileName = None,
                                  figmaSelectedFrameName = None, tokenUsage = Some 7,
                                  files = None, assets = None \<rparr>)
                          None)"
    by (simp add: on_done_def subscribed_def stateUpdated_def settle_def empty_result_def Let_def)
  note thm1 = retry_ceiling [OF h1, where chunks' = "?ten @ [ [Done 7 ''s1''] ]"
                and ts = "replicate 10 ErrorEvent" and usage = 7 and sid = "''s1''",
                unfolded Let_def, THEN conjunct2, THEN conjunct2, THEN conjunct1]
  note thm2 = retry_ceiling [OF h1, where cs = ?ten and c = "[Error ErrorEvent]"
                and fs = "replicate 10 ErrorEvent" and f = ErrorEvent, unfolded Let_def,
                THEN conjunct2, THEN conjunct2, THEN conjunct2]
  note thm3 = retry_ceiling [OF h1, where cs = "[]" and c = ?c
                and fs = "replicate 10 ErrorEvent" and f = ErrorEvent, unfolded Let_def,
                THEN conjunct2, THEN conjunct2, THEN conjunct2]
  have r1: "settled (subscribeToJobStream ?lfr (?ten @ [ [Done 7 ''s1''] ]))
              = Some (Resolved
                        (Some (empty_result\<lparr>tokenUsage := Some 7, sessionId := Some ''s1''\<rparr>))
                        None)"
    using thm1 t10 c10 by simp
  have r2: "settled (subscribeToJobStream ?lfr (?ten @ [ [Error ErrorEvent] ]))
              = (case settled (subscribeToJobStream ?lfr
                                 (map without_errors (?ten @ [ [Error ErrorEvent] ]))) of
                   None \<Rightarrow> Some (Resolved None (Some (codegenError (frame_payload ErrorEvent))))
                 | Some out \<Rightarrow> Some out)"
    using thm2 t11 e11 by simp
  have r3: "status (state (subscribeToJobStream ?lfr ([] @ [?c]))) = S_error
            \<and> settled (subscribeToJobStream ?lfr ([] @ [?c]))
                = (case settled (subscribeToJobStream ?lfr (map without_errors ([] @ [?c]))) of
                     None \<Rightarrow> Some (Resolved None (Some (codegenError (frame_payload ErrorEvent))))
                   | Some out \<Rightarrow> Some out)"
    using thm3 t11 e11c ne by simp
  show ?thesis
    unfolding Let_def
    using h1 t10 t11 c10 e11 e11c ne r1 r2 [unfolded s0] r3 [unfolded s0c resolved]
    by (simp add: list_all_iff empty_result_def codegenError_def frame_payload_def)
qed

subsection \<open>C2: the fatal short circuit\<close>

text \<open>
  C2 as the specification words it: for every event sequence the frame named
  \<^verbatim>\<open>Task Crashed\<close> settles the job with an error of that name. The \<^verbatim>\<open>error\<close> listener is
  \<^verbatim>\<open>async\<close> and suspends at \<^verbatim>\<open>await lastFetchResponse\<close>; when \<^verbatim>\<open>start\<close>, the \<^verbatim>\<open>error\<close> frame and
  \<^verbatim>\<open>done\<close> arrive in one chunk, the \<^verbatim>\<open>done\<close> listener runs before the \<^verbatim>\<open>error\<close> listener is
  resumed, and the promise is resolved with the result, without error: \<^verbatim>\<open>attachJob\<close>
  returns the result.
\<close>

theorem fatal_short_circuit_counterexample:
  "settled
     (subscribeToJobStream
        (Some (Fetch_resolved \<lparr> ok = True, response_status = 200, body_text = None,
                                body_payload_message = None \<rparr>))
        [ [Start ''s1'',
           Error (MessageEvent (Some \<lparr> p_name = Some ''Task Crashed'', p_message = Some ''boom'',
                                        p_status = None, p_detail = None \<rparr>)),
           Done 10 ''s1''] ])
     = Some (Resolved
               (Some \<lparr> sessionId = Some ''s1'', figmaFileName = None,
                       figmaSelectedFrameName = None, tokenUsage = Some 10, files = None,
                       assets = None \<rparr>)
               None)
   \<and> attachJob
       (Some (Fetch_resolved \<lparr> ok = True, response_status = 200, body_text = None,
                               body_payload_message = None \<rparr>))
       [ [Start ''s1'',
          Error (MessageEvent (Some \<lparr> p_name = Some ''Task Crashed'', p_message = Some ''boom'',
                                       p_status = None, p_detail = None \<rparr>)),
          Done 10 ''s1''] ]
     = Some (Inr \<lparr> ret_result =
                     Some \<lparr> sessionId = Some ''s1'', figmaFileName = None,
                            figmaSelectedFrameName = None, tokenUsage = Some 10, files = None,
                            assets = None \<rparr>,
                   ret_error = None \<rparr>)"
  by (simp add: subscribeToJobStream_def attachJob_def read_outcome_def deliver_chunk_def
      subscribed_def stateUpdated_def on_start_def on_done_def on_error_resumed_def classify_def
      codegenError_def isUnrecoverableError_def settle_def initialProgress_def empty_result_def
      Let_def)

text \<open>
  C2, amended. Let the first fetch response be present and \<^verbatim>\<open>ok\<close>, and let an in-band
  \<^verbatim>\<open>error\<close> frame carry a payload named \<^verbatim>\<open>Task Crashed\<close>.
  \<^item> When its listener is resumed, in any state \<open>js\<close> of the subscription and so at any
    value of the retry counter, the status becomes \<^verbatim>\<open>error\<close>, the stored error is the one
    built from the frame, named \<^verbatim>\<open>Task Crashed\<close>, that state is sent as a snapshot, and a
    promise that was not settled resolves with this error; a promise settles once, so
    an earlier settlement stays.
  \<^item> In a stream: the frame being the last \<^verbatim>\<open>error\<close> frame of the last chunk, among any
    events \<open>pre\<close> before it and \<open>post\<close> behind it in that chunk, and after any chunks
    \<open>cs\<close>, the subscription ends as it does without the frame, with the status, the
    error, the snapshot and the settlement just described. So the job settles with the
    error named \<^verbatim>\<open>Task Crashed\<close> unless the events before the frame, or those behind it
    in its chunk, have settled it.
\<close>

theorem fatal_short_circuit:
  assumes "ok r" "p_name p = Some ''Task Crashed''"
  shows "(let js' = on_error_resumed (Fetch_resolved r) (MessageEvent (Some p)) js
          in state js' = (state js)\<lparr>status := S_error, error := Some (codegenError (Some p))\<rparr>
             \<and> snapshots js' = snapshots js @ [state js']
             \<and> settled js'
                 = (case settled js of
                      None \<Rightarrow> Some (Resolved None (Some (codegenError (Some p))))
                    | Some out \<Rightarrow> Some out))
       \<and> name (codegenError (Some p)) = ''Task Crashed''
       \<and> (error_frames post = [] \<longrightarrow>
            (let js0 = subscribeToJobStream (Some (Fetch_resolved r)) (cs @ [pre @ post]);
                 js = subscribeToJobStream (Some (Fetch_resolved r))
                        (cs @ [pre @ Error (MessageEvent (Some p)) # post])
             in state js = (state js0)\<lparr>status := S_error,
                                         error := Some (codegenError (Some p))\<rparr>
                \<and> snapshots js = snapshots js0 @ [state js]
                \<and> settled js
                    = (case settled js0 of
                         None \<Rightarrow> Some (Resolved None (Some (codegenError (Some p))))
                       | Some out \<Rightarrow> Some out)))"
proof (intro conjI impI)
  show "let js' = on_error_resumed (Fetch_resolved r) (MessageEvent (Some p)) js
        in state js' = (state js)\<lparr>status := S_error, error := Some (codegenError (Some p))\<rparr>
           \<and> snapshots js' = snapshots js @ [state js']
           \<and> settled js'
               = (case settled js of
                    None \<Rightarrow> Some (Resolved None (Some (codegenError (Some p))))
                  | Some out \<Rightarrow> Some out)"
    using assms
    by (simp add: on_error_resumed_def classify_def Let_def isUnrecoverableError_def
        stateUpdated_def settle_def split: option.splits)
  show "name (codegenError (Some p)) = ''Task Crashed''"
    using assms by (simp add: codegenError_def)
next
  assume post: "error_frames post = []"
  have "effect_order (cs @ [pre @ Error (MessageEvent (Some p)) # post])
          = effect_order (cs @ [pre @ post]) @ [Error (MessageEvent (Some p))]"
    by (simp add: effect_order_def resumed_last_insert[OF post])
  then show "let js0 = subscribeToJobStream (Some (Fetch_resolved r)) (cs @ [pre @ post]);
                 js = subscribeToJobStream (Some (Fetch_resolved r))
                        (cs @ [pre @ Error (MessageEvent (Some p)) # post])
             in state js = (state js0)\<lparr>status := S_error,
                                         error := Some (codegenError (Some p))\<rparr>
                \<and> snapshots js = snapshots js0 @ [state js]
                \<and> settled js
                    = (case settled js0 of
                         None \<Rightarrow> Some (Resolved None (Some (codegenError (Some p))))
                       | Some out \<Rightarrow> Some out)"
    using assms
    by (simp add: subscription_effects run_listeners_append on_error_resumed_def classify_def
        Let_def isUnrecoverableError_def stateUpdated_def settle_def split: option.splits)
qed

text \<open>
  Scenario B of the specification, \<^verbatim>\<open>start\<close> and then, in a chunk of its own, the \<^verbatim>\<open>error\<close>
  frame named \<^verbatim>\<open>Task Crashed\<close>: the job settles with that error.
\<close>

theorem fatal_short_circuit_witness:
  "ok \<lparr> ok = True, response_status = 200, body_text = None,
        body_payload_message = None \<rparr>
   \<and> p_name \<lparr> p_name = Some ''Task Crashed'', p_message = Some ''boom'', p_status = None,
              p_detail = None \<rparr> = Some ''Task Crashed''
   \<and> error_frames [] = []
   \<and> (let js = subscribeToJobStream
                      (Some (Fetch_resolved \<lparr> ok = True, response_status = 200, body_text = None,
                                              body_payload_message = None \<rparr>))
                      [ [Start ''s1''],
                    [Error (MessageEvent
                              (Some \<lparr> p_name = Some ''Task Crashed'', p_message = Some ''boom'',
                                      p_status = None, p_detail = None \<rparr>))] ]
      in status (state js) = S_error
         \<and> settled js
             = Some (Resolved None
                       (Some \<lparr> name = ''Task Crashed'', reason = ''boom'', http_status = None,
                               detail = None \<rparr>)))"
proof -
  let ?p = "\<lparr> p_name = Some ''Task Crashed'', p_message = Some ''boom'', p_status = None,
               p_detail = None \<rparr>"
  have h1: "ok \<lparr> ok = True, response_status = 200, body_text = None,
                 body_payload_message = None \<rparr>"
    by simp
  have h2: "p_name ?p = Some ''Task Crashed''"
    by simp
  have h3: "error_frames [] = []"
    by simp
  have s: "settled
             (subscribeToJobStream
                (Some (Fetch_resolved \<lparr> ok = True, response_status = 200, body_text = None,
                                        body_payload_message = None \<rparr>))
                [ [Start ''s1''], [] ]) = None"
    by (simp add: subscribeToJobStream_def deliver_chunk_def subscribed_def on_start_def
        stateUpdated_def)
  show ?thesis
    using fatal_short_circuit [OF h1 h2, where cs = "[ [Start ''s1''] ]" and pre = "[]"
            and post = "[]", unfolded Let_def, THEN conjunct2, THEN conjunct2] h3 s
    by (simp add: Let_def codegenError_def)
qed

subsection \<open>C4: the order of the snapshot statuses\<close>

text \<open>
  C4 as the specification words it: the statuses of the snapshots only move along the
  chain idle, pending, terminal, and no terminal status is ever left. No listener reads
  the status before writing it, and the source notes that \<^verbatim>\<open>error\<close> events arrive even
  after \<^verbatim>\<open>done\<close>: a fatal \<^verbatim>\<open>error\<close> frame after \<^verbatim>\<open>done\<close> sends a snapshot with status
  \<^verbatim>\<open>error\<close> after the one with status \<^verbatim>\<open>success\<close>.
\<close>

theorem snapshot_status_order_counterexample:
  "map status
     (snapshots
        (subscribeToJobStream
           (Some (Fetch_resolved \<lparr> ok = True, response_status = 200, body_text = None,
                                   body_payload_message = None \<rparr>))
           [ [Done 10 ''s1''],
             [Error (MessageEvent (Some \<lparr> p_name = Some ''Task Crashed'', p_message = None,
                                          p_status = None, p_detail = None \<rparr>))] ]))
     = [S_pending, S_success, S_error]
   \<and> \<not> successively chain_step [S_pending, S_success, S_error]"
  by (simp add: subscribeToJobStream_def deliver_chunk_def subscribed_def stateUpdated_def
      on_done_def on_error_resumed_def classify_def isUnrecoverableError_def codegenError_def settle_def
      initialProgress_def empty_result_def chain_step_def Let_def)

text \<open>
  C4, amended. For every sequence of chunks of events the statuses of the snapshots
  never move backwards along the chain: the first snapshot is \<^verbatim>\<open>pending\<close>, \<^verbatim>\<open>idle\<close> is never
  delivered, the positions on the chain are ascending, and no \<^verbatim>\<open>pending\<close> snapshot follows
  a terminal one.
\<close>

theorem snapshot_status_order:
  "let sts = map status (snapshots (subscribeToJobStream lfr chunks))
   in sts \<noteq> [] \<and> hd sts = S_pending \<and> sorted (map status_rank sts)
      \<and> (\<forall>i j. i < j \<and> j < length sts \<and> sts ! j = S_pending \<longrightarrow> sts ! i = S_pending)
      \<and> (\<forall>s\<in>set sts. s \<noteq> S_idle)"
proof -
  define snaps where "snaps = snapshots (subscribeToJobStream lfr chunks)"
  have srt: "sorted (map (\<lambda>s. status_rank (status s)) snaps)"
    unfolding snaps_def by (rule snapshots_sorted) (rule status_rank_step)
  have ne: "snaps \<noteq> []"
    using run_listeners_snapshots_grow[of lfr "effect_order chunks" subscribed]
    by (auto simp: snaps_def subscription_effects subscribed_def stateUpdated_def)
  have hd: "status (hd snaps) = S_pending"
    by (simp add: snaps_def hd_snapshots) (simp add: subscribed_def stateUpdated_def)
  have pos: "1 \<le> status_rank (status (snaps ! i))" if "i < length snaps" for i
  proof -
    have "map (\<lambda>s. status_rank (status s)) snaps ! 0 \<le> map (\<lambda>s. status_rank (status s)) snaps ! i"
      using srt that by (intro sorted_nth_mono) auto
    then show ?thesis using that hd ne by (simp add: hd_conv_nth)
  qed
  have noidle: "\<forall>s\<in>set (map status snaps). s \<noteq> S_idle"
  proof
    fix s assume "s \<in> set (map status snaps)"
    then obtain i where "i < length snaps" "s = status (snaps ! i)"
      by (auto simp: in_set_conv_nth)
    then show "s \<noteq> S_idle" using pos[of i] by auto
  qed
  have no_return: "\<forall>i j. i < j \<and> j < length (map status snaps) \<and> map status snaps ! j = S_pending
                \<longrightarrow> map status snaps ! i = S_pending"
  proof (intro allI impI)
    fix i j assume a: "i < j \<and> j < length (map status snaps) \<and> map status snaps ! j = S_pending"
    then have ij: "i < j" and jl: "j < length snaps" by simp_all
    have pj: "status (snaps ! j) = S_pending" using a jl by simp
    have "map (\<lambda>s. status_rank (status s)) snaps ! i \<le> map (\<lambda>s. status_rank (status s)) snaps ! j"
      using srt ij jl by (intro sorted_nth_mono) auto
    then have "status_rank (status (snaps ! i)) \<le> 1" using ij jl pj by simp
    moreover have "1 \<le> status_rank (status (snaps ! i))" using pos ij jl by simp
    ultimately have "status_rank (status (snaps ! i)) = 1" by simp
    then show "map status snaps ! i = S_pending"
      using ij jl by (cases "status (snaps ! i)") simp_all
  qed
  show ?thesis
    unfolding Let_def snaps_def[symmetric]
    using srt ne hd noidle no_return by (simp add: hd_map comp_def)
qed

theorem snapshot_status_order_witness:
  "(let sts = map status (snapshots (subscribeToJobStream None [ [Start ''s1''], [Done 10 ''s1''] ]))
    in sts = [S_pending, S_pending, S_success]
       \<and> (0::nat) < 1 \<and> 1 < length sts \<and> sts ! 1 = S_pending \<and> sts ! 0 = S_pending
       \<and> sorted (map status_rank sts) \<and> (\<forall>s\<in>set sts. s \<noteq> S_idle))"
proof -
  have e: "map status (snapshots (subscribeToJobStream None [ [Start ''s1''], [Done 10 ''s1''] ]))
             = [S_pending, S_pending, S_success]"
    by (simp add: subscribeToJobStream_def deliver_chunk_def subscribed_def stateUpdated_def
        on_start_def on_done_def settle_def initialProgress_def Let_def)
  show ?thesis
    using snapshot_status_order [where lfr = None and chunks = "[ [Start ''s1''], [Done 10 ''s1''] ]"]
    by (simp add: Let_def e)
qed

subsection \<open>C5: the sub-task statuses\<close>

text \<open>
  C5 as the specification words it: no sub-task status ever regresses, and a
  \<^verbatim>\<open>generating_code\<close> event after \<^verbatim>\<open>codegen_completed\<close> does not move \<^verbatim>\<open>codeGeneration\<close> back
  to \<^verbatim>\<open>running\<close>. The \<^verbatim>\<open>generating_code\<close> listener assigns \<^verbatim>\<open>running\<close> whatever the
  current value is.
\<close>

theorem subtask_regression_counterexample:
  "map (\<lambda>s. codeGeneration (tasks s))
     (snapshots
        (subscribeToJobStream None [ [Codegen_completed], [Generating_code G_running 50 None] ]))
     = [T_pending, T_finished, T_running]
   \<and> \<not> task_forward T_finished T_running"
  by (simp add: subscribeToJobStream_def deliver_chunk_def subscribed_def stateUpdated_def
      on_codegen_completed_def on_generating_code_def set_tasks_def initialProgress_def
      task_forward_def)

text \<open>
  C5, amended. In one step of the reducer, the run of the listener of one event, each
  sub-task status moves forward along pending, running, finished or stays, except that
  \<^verbatim>\<open>start\<close> sets \<^verbatim>\<open>fetchDesign\<close>, \<^verbatim>\<open>pre_codegen\<close> with the message \<^verbatim>\<open>Anima model built\<close> sets
  \<^verbatim>\<open>codeGeneration\<close> and \<^verbatim>\<open>uploadAssets\<close>, and \<^verbatim>\<open>generating_code\<close> sets \<^verbatim>\<open>codeGeneration\<close> to
  \<^verbatim>\<open>running\<close> whatever the value was. Over every sequence of chunks of events, a sub-task
  that a snapshot shows as no longer \<^verbatim>\<open>pending\<close> is never shown as \<^verbatim>\<open>pending\<close> by a later
  snapshot.
\<close>

theorem subtask_progression:
  "(let js' = run_listener lfr ev js
    in (task_forward (fetchDesign (tasks (state js))) (fetchDesign (tasks (state js')))
          \<or> sets_fetchDesign_running ev \<and> fetchDesign (tasks (state js')) = T_running)
       \<and> (task_forward (codeGeneration (tasks (state js))) (codeGeneration (tasks (state js')))
          \<or> sets_codeGeneration_running ev \<and> codeGeneration (tasks (state js')) = T_running)
       \<and> (task_forward (uploadAssets (tasks (state js))) (uploadAssets (tasks (state js')))
          \<or> sets_uploadAssets_running ev \<and> uploadAssets (tasks (state js')) = T_running))
   \<and> (let snaps = snapshots (subscribeToJobStream lfr chunks)
      in \<forall>i j. i < j \<and> j < length snaps \<longrightarrow>
           (fetchDesign (tasks (snaps ! i)) \<noteq> T_pending
              \<longrightarrow> fetchDesign (tasks (snaps ! j)) \<noteq> T_pending)
           \<and> (codeGeneration (tasks (snaps ! i)) \<noteq> T_pending
              \<longrightarrow> codeGeneration (tasks (snaps ! j)) \<noteq> T_pending)
           \<and> (uploadAssets (tasks (snaps ! i)) \<noteq> T_pending
              \<longrightarrow> uploadAssets (tasks (snaps ! j)) \<noteq> T_pending))"
proof -
  define snaps where "snaps = snapshots (subscribeToJobStream lfr chunks)"
  have s1: "sorted (map (\<lambda>s. started (fetchDesign (tasks s))) snaps)"
    unfolding snaps_def by (rule snapshots_sorted) (rule started_fetchDesign_step)
  have s2: "sorted (map (\<lambda>s. started (codeGeneration (tasks s))) snaps)"
    unfolding snaps_def by (rule snapshots_sorted) (rule started_codeGeneration_step)
  have s3: "sorted (map (\<lambda>s. started (uploadAssets (tasks s))) snaps)"
    unfolding snaps_def by (rule snapshots_sorted) (rule started_uploadAssets_step)
  have seq: "\<forall>i j. i < j \<and> j < length snaps \<longrightarrow>
           (fetchDesign (tasks (snaps ! i)) \<noteq> T_pending
              \<longrightarrow> fetchDesign (tasks (snaps ! j)) \<noteq> T_pending)
           \<and> (codeGeneration (tasks (snaps ! i)) \<noteq> T_pending
              \<longrightarrow> codeGeneration (tasks (snaps ! j)) \<noteq> T_pending)
           \<and> (uploadAssets (tasks (snaps ! i)) \<noteq> T_pending
              \<longrightarrow> uploadAssets (tasks (snaps ! j)) \<noteq> T_pending)"
    using sorted_started_nth[OF s1] sorted_started_nth[OF s2] sorted_started_nth[OF s3]
    by blast
  show ?thesis
    unfolding Let_def snaps_def[symmetric]
    using run_listener_tasks[of js lfr ev] seq by simp
qed

text \<open>
  Scenario: \<^verbatim>\<open>pre_codegen\<close> (model built), \<^verbatim>\<open>codegen_completed\<close>, then \<^verbatim>\<open>generating_code\<close>.
  The last step is the exception of the first part; the snapshots leave \<^verbatim>\<open>pending\<close> once.
\<close>

theorem subtask_progression_witness:
  "(let snaps = snapshots
                  (subscribeToJobStream None
                     [ [Pre_codegen ''Anima model built'', Codegen_completed],
                       [Generating_code G_running 50 None] ])
    in map (\<lambda>s. codeGeneration (tasks s)) snaps = [T_pending, T_running, T_finished, T_running]
       \<and> (1::nat) < 3 \<and> 3 < length snaps
       \<and> codeGeneration (tasks (snaps ! 1)) \<noteq> T_pending
       \<and> codeGeneration (tasks (snaps ! 3)) \<noteq> T_pending)
   \<and> sets_codeGeneration_running (Generating_code G_running 50 None)
   \<and> \<not> task_forward T_finished T_running"
proof -
  let ?evs = "[ [Pre_codegen ''Anima model built'', Codegen_completed],
                [Generating_code G_running 50 None] ]"
  let ?snaps = "snapshots (subscribeToJobStream None ?evs)"
  have e: "map (\<lambda>s. codeGeneration (tasks s)) ?snaps
             = [T_pending, T_running, T_finished, T_running]"
    by (simp add: subscribeToJobStream_def deliver_chunk_def subscribed_def stateUpdated_def
        on_pre_codegen_def
        on_codegen_completed_def on_generating_code_def set_tasks_def initialProgress_def)
  have l: "length ?snaps = 4"
    by (simp add: subscribeToJobStream_def deliver_chunk_def subscribed_def stateUpdated_def
        on_pre_codegen_def
        on_codegen_completed_def on_generating_code_def set_tasks_def initialProgress_def)
  have n1: "codeGeneration (tasks (?snaps ! 1)) \<noteq> T_pending"
    by (simp add: subscribeToJobStream_def deliver_chunk_def subscribed_def stateUpdated_def
        on_pre_codegen_def
        on_codegen_completed_def on_generating_code_def set_tasks_def initialProgress_def)
  have "(1::nat) < 3 \<and> 3 < length ?snaps \<longrightarrow>
          (codeGeneration (tasks (?snaps ! 1)) \<noteq> T_pending
             \<longrightarrow> codeGeneration (tasks (?snaps ! 3)) \<noteq> T_pending)"
    using subtask_progression
            [where lfr = None and ev = "Generating_code G_running 50 None"
               and js = subscribed and chunks = ?evs, unfolded Let_def]
    by blast
  then have n3: "codeGeneration (tasks (?snaps ! 3)) \<noteq> T_pending"
    using l n1 by simp
  show ?thesis
    unfolding Let_def using e l n1 n3
    by (simp add: sets_codeGeneration_running_def task_forward_def)
qed

section \<open>Properties of the job module and of the provider\<close>

subsection \<open>Auxiliary facts\<close>

lemma run_listener_state_snapshots:
  "(snapshots (run_listener lfr ev js) = snapshots js \<and> state (run_listener lfr ev js) = state js)
   \<or> snapshots (run_listener lfr ev js) = snapshots js @ [state (run_listener lfr ev js)]"
  by (cases lfr; cases ev)
     (auto simp: listener_defs split: option.splits fetch_promise.splits error_frame.splits)

lemma last_snapshot_run_listeners:
  assumes "snapshots js \<noteq> []" "last (snapshots js) = state js"
  shows "snapshots (run_listeners lfr evs js) \<noteq> [] \<and> last (snapshots (run_listeners lfr evs js)) = state (run_listeners lfr evs js)"
  using assms
proof (induction evs arbitrary: js)
  case Nil
  then show ?case by simp
next
  case (Cons ev evs)
  have "snapshots (run_listener lfr ev js) \<noteq> [] \<and> last (snapshots (run_listener lfr ev js)) = state (run_listener lfr ev js)"
    using run_listener_state_snapshots[of lfr ev js] Cons.prems by auto
  then show ?case using Cons.IH by simp
qed

lemma last_snapshot:
  "snapshots (subscribeToJobStream lfr chunks) \<noteq> []
   \<and> last (snapshots (subscribeToJobStream lfr chunks)) = state (subscribeToJobStream lfr chunks)"
  unfolding subscription_effects
  by (rule last_snapshot_run_listeners) (simp_all add: subscribed_def stateUpdated_def)

lemma rawState_effect_keeps:
  "rawState (rawState_effect p) = rawState p \<and> opened (rawState_effect p) = opened p
   \<and> currentJobType (rawState_effect p) = currentJobType p"
  by (simp add: rawState_effect_def split: option.splits)

lemma forward_snapshots_keeps:
  "opened (forward_snapshots ss p) = opened p
   \<and> currentJobType (forward_snapshots ss p) = currentJobType p
   \<and> rawState (forward_snapshots ss p) = (if ss = [] then rawState p else last ss)"
  by (induction ss arbitrary: p) (simp_all add: setRawState_def rawState_effect_keeps)

lemma run_listener_settled:
  "settled js = Some v \<Longrightarrow> settled (run_listener lfr ev js) = Some v"
  by (cases lfr; cases ev)
     (auto simp: listener_defs split: option.splits fetch_promise.splits error_frame.splits)

lemma run_listeners_settled:
  "settled js = Some v \<Longrightarrow> settled (run_listeners lfr evs js) = Some v"
  by (induction evs arbitrary: js) (simp_all add: run_listener_settled)

lemma deliver_settled: "settled js = Some v \<Longrightarrow> settled (deliver lfr chunks js) = Some v"
  by (simp add: deliver_effects run_listeners_settled)

lemma read_outcome_None: "read_outcome js = None \<longleftrightarrow> settled js = None"
  by (simp add: read_outcome_def split: option.splits outcome.splits)

lemma awaited_None: "awaited lfr chunks js = None \<longleftrightarrow> settled (deliver lfr chunks js) = None"
proof (induction chunks arbitrary: js)
  case Nil
  then show ?case by (simp add: read_outcome_None)
next
  case (Cons chunk chunks)
  show ?case
  proof (cases "settled js")
    case None
    then show ?thesis using Cons by simp
  next
    case (Some v)
    then have "settled (deliver lfr (chunk # chunks) js) = Some v"
      by (rule deliver_settled)
    then show ?thesis using Some by (simp add: read_outcome_None)
  qed
qed

lemma createJob_reads_result_after_chunk:
  "createJob id scenario_e_failed None None
     [ [Done 10 ''s1'',
        Assets_list [\<lparr> asset_name = ''a.png'', asset_url = ''https://cdn/a.png'' \<rparr>]] ]
     = Some (Inr \<lparr> ret_result =
                     Some \<lparr> sessionId = Some ''s1'', figmaFileName = None,
                            figmaSelectedFrameName = None, tokenUsage = Some 10, files = None,
                            assets =
                              Some [\<lparr> asset_name = ''a.png'',
                                      asset_url = ''https://cdn/a.png'' \<rparr>] \<rparr>,
                   ret_error = None \<rparr>)"
  by (simp add: createJob_def read_outcome_def deliver_chunk_def subscribed_def stateUpdated_def
      on_done_def on_assets_list_def settle_def initialProgress_def empty_result_def Let_def)

subsection \<open>C6: local assets\<close>

text \<open>
  C6, scenario E: the local strategy with path \<^verbatim>\<open>/assets\<close>, one generated file and two
  listed assets. \<^verbatim>\<open>fetch\<close> fulfils for a response of any status and the code never reads
  \<^verbatim>\<open>response.ok\<close>: when the second asset answers 404, its download counts as fulfilled and
  the body of the 404 response is encoded and spliced in, so the file map holds two
  injected entries. Only a download whose promise rejects (the fetch fails) is left out:
  then there is one injected entry.
\<close>

theorem local_assets_scenario_e:
  "createJob id scenario_e_404 None (Some (Local (Local_path ''/assets''))) scenario_e_events
     = Some (Inr \<lparr> ret_result =
                     Some \<lparr> sessionId = Some ''s1'', figmaFileName = None,
                            figmaSelectedFrameName = None, tokenUsage = Some 10,
                            files =
                              Some [(''a.txt'', \<lparr> content = ''hello'', isBinary = False \<rparr>),
                                    (''assets/a.png'', \<lparr> content = ''PNG'', isBinary = True \<rparr>),
                                    (''assets/b.png'',
                                     \<lparr> content = ''Not Found'', isBinary = True \<rparr>)],
                            assets =
                              Some [\<lparr> asset_name = ''a.png'', asset_url = ''https://cdn/a.png'' \<rparr>,
                                    \<lparr> asset_name = ''b.png'', asset_url = ''https://cdn/b.png'' \<rparr>] \<rparr>,
                   ret_error = None \<rparr>)
   \<and> createJob id scenario_e_failed None (Some (Local (Local_path ''/assets''))) scenario_e_events
     = Some (Inr \<lparr> ret_result =
                     Some \<lparr> sessionId = Some ''s1'', figmaFileName = None,
                            figmaSelectedFrameName = None, tokenUsage = Some 10,
                            files =
                              Some [(''a.txt'', \<lparr> content = ''hello'', isBinary = False \<rparr>),
                                    (''assets/a.png'', \<lparr> content = ''PNG'', isBinary = True \<rparr>)],
                            assets =
                              Some [\<lparr> asset_name = ''a.png'', asset_url = ''https://cdn/a.png'' \<rparr>,
                                    \<lparr> asset_name = ''b.png'', asset_url = ''https://cdn/b.png'' \<rparr>] \<rparr>,
                   ret_error = None \<rparr>)"
  by (simp add: createJob_def scenario_e_events_def scenario_e_404_def scenario_e_failed_def
      read_outcome_def deliver_chunk_def subscribed_def stateUpdated_def on_start_def
      on_generating_code_def on_assets_list_def on_done_def settle_def set_tasks_def
      initialProgress_def empty_result_def downloadAsset_def assetPath_def Let_def)

subsection \<open>C8: one job in flight\<close>

text \<open>
  C8. \<^verbatim>\<open>createJob\<close> of the provider, called while the job of the provider has status
  \<^verbatim>\<open>pending\<close>, throws the error \<^verbatim>\<open>A job is already in progress\<close> and touches nothing: no
  event source is opened. With any other status the call proceeds: it opens the event
  source of the job type with method POST, forwards the snapshots of the reducer, never
  throws that error, and completes exactly when the subscription settles.
\<close>

theorem createJob_pending_guard:
  "(job_status (job p) = S_pending \<longrightarrow>
      provider_createJob env props type params chunks p
        = (p, Some (Inl (Plain_error ''A job is already in progress''))))
   \<and> (job_status (job p) \<noteq> S_pending \<longrightarrow>
        (let p' = fst (provider_createJob env props type params chunks p);
             out = snd (provider_createJob env props type params chunks p)
         in opened p' = opened p @ [(mappingJobTypeToUrl props type, ''POST'')]
            \<and> rawState p' = state (subscribeToJobStream (lastFetchResponse env) chunks)
            \<and> out \<noteq> Some (Inl (Plain_error ''A job is already in progress''))
            \<and> (out = None \<longleftrightarrow> settled (subscribeToJobStream (lastFetchResponse env) chunks) = None)))"
proof (intro conjI impI)
  assume "job_status (job p) = S_pending"
  then show "provider_createJob env props type params chunks p
        = (p, Some (Inl (Plain_error ''A job is already in progress'')))"
    by (simp add: provider_createJob_def)
next
  assume np: "job_status (job p) \<noteq> S_pending"
  have cj: "createJob (arrayBufferToBase64 env) (fetch_url env) (lastFetchResponse env) (storage_of params) chunks = None
     \<longleftrightarrow> settled (subscribeToJobStream (lastFetchResponse env) chunks) = None"
    using awaited_None[of "lastFetchResponse env" chunks subscribed]
    by (auto simp: createJob_def subscribeToJobStream_def
        split: option.splits outcome.splits assets_storage.splits list.splits sum.splits)
  show "let p' = fst (provider_createJob env props type params chunks p);
             out = snd (provider_createJob env props type params chunks p)
         in opened p' = opened p @ [(mappingJobTypeToUrl props type, ''POST'')]
            \<and> rawState p' = state (subscribeToJobStream (lastFetchResponse env) chunks)
            \<and> out \<noteq> Some (Inl (Plain_error ''A job is already in progress''))
            \<and> (out = None \<longleftrightarrow> settled (subscribeToJobStream (lastFetchResponse env) chunks) = None)"
    using np cj last_snapshot[of "lastFetchResponse env" chunks]
    by (auto simp: provider_createJob_def Let_def forward_snapshots_keeps
        split: option.splits sum.splits)
qed

text \<open>
  A mounted provider starts a job that stays pending (its stream delivers \<^verbatim>\<open>start\<close> only);
  a second \<^verbatim>\<open>createJob\<close> on the provider it leaves behind is refused.
\<close>

theorem createJob_pending_guard_witness:
  "job_status (job (mounted [])) \<noteq> S_pending
   \<and> opened (fst (provider_createJob example_environment example_props F2c No_params
                     [ [Start ''s1''] ] (mounted [])))
       = [(''/api/f2c'', ''POST'')]
   \<and> job_status (job (fst (provider_createJob example_environment example_props F2c No_params
                              [ [Start ''s1''] ] (mounted [])))) = S_pending
   \<and> snd (provider_createJob example_environment example_props L2c No_params [ [Start ''s2''] ]
            (fst (provider_createJob example_environment example_props F2c No_params
                    [ [Start ''s1''] ] (mounted []))))
       = Some (Inl (Plain_error ''A job is already in progress''))"
proof -
  let ?p = "fst (provider_createJob example_environment example_props F2c No_params
                   [ [Start ''s1''] ] (mounted []))"
  have h1: "job_status (job (mounted [])) \<noteq> S_pending"
    by (simp add: mounted_def)
  have o: "opened ?p = [(''/api/f2c'', ''POST'')]"
    using createJob_pending_guard
            [where p = "mounted []" and env = example_environment and props = example_props
               and type = F2c and params = No_params and chunks = "[ [Start ''s1''] ]"] h1
    by (simp add: Let_def mounted_def example_props_def)
  have h2: "job_status (job ?p) = S_pending"
    by (simp add: provider_createJob_def mounted_def example_environment_def createJob_def
        read_outcome_def subscribeToJobStream_def deliver_chunk_def subscribed_def stateUpdated_def on_start_def
        initialProgress_def setRawState_def rawState_effect_def Let_def)
  show ?thesis
    using createJob_pending_guard
            [where p = ?p and env = example_environment and props = example_props
               and type = L2c and params = No_params and chunks = "[ [Start ''s2''] ]"] h1 h2 o
    by simp
qed

subsection \<open>C9: attaching to a job\<close>

text \<open>
  C9. \<^verbatim>\<open>attachJob\<close> of the provider reads the job type stored under
  \<^verbatim>\<open>anima:<sessionId>:type\<close>.
  \<^item> When nothing (or the empty string) is stored, it throws an \<^verbatim>\<open>AttachJobError\<close> saying
    that the job type was not found, and opens no event source.
  \<^item> When the stored type is not one of \<^verbatim>\<open>f2c\<close>, \<^verbatim>\<open>l2c\<close>, \<^verbatim>\<open>p2c\<close>, it throws an
    \<^verbatim>\<open>AttachJobError\<close> (its message names the invalid type), and opens no event source.
  \<^item> Otherwise it opens the event source at the URL of that job type followed by the
    session id, and runs the same reducer as \<^verbatim>\<open>createJob\<close>: the raw state of the provider
    is the state of \<^verbatim>\<open>subscribeToJobStream\<close> on the delivered chunks of events, and the call completes
    exactly when that subscription settles.
\<close>

theorem attachJob_requires_job_type:
  "(map_of (localStorage p) (storage_key sid) = None
      \<or> map_of (localStorage p) (storage_key sid) = Some [] \<longrightarrow>
      provider_attachJob env props sid params chunks p
        = (p, Some (Inl (AttachJobError
                           (''Cannot attach job '' @ sid @ '': job type not found in local storage'')
                           None))))
   \<and> (map_of (localStorage p) (storage_key sid) = Some t \<and> t \<noteq> [] \<and> known_job_type t = None \<longrightarrow>
      provider_attachJob env props sid params chunks p
        = (p, Some (Inl (AttachJobError
                           (''Invalid job type '' @ [CHR 0x22] @ t @ [CHR 0x22]
                            @ '' for job '' @ sid)
                           None))))
   \<and> (map_of (localStorage p) (storage_key sid) = Some t \<and> known_job_type t = Some ty \<longrightarrow>
        (let p' = fst (provider_attachJob env props sid params chunks p);
             out = snd (provider_attachJob env props sid params chunks p)
         in opened p' = opened p @ [(mappingJobTypeToUrl props ty @ ''/'' @ sid, ''POST'')]
            \<and> currentJobType p' = Some ty
            \<and> rawState p' = state (subscribeToJobStream (lastFetchResponse env) chunks)
            \<and> (out = None \<longleftrightarrow> settled (subscribeToJobStream (lastFetchResponse env) chunks) = None)))"
proof (intro conjI impI)
  assume "map_of (localStorage p) (storage_key sid) = None
      \<or> map_of (localStorage p) (storage_key sid) = Some []"
  then show "provider_attachJob env props sid params chunks p
        = (p, Some (Inl (AttachJobError
                           (''Cannot attach job '' @ sid @ '': job type not found in local storage'')
                           None)))"
    by (auto simp: provider_attachJob_def)
next
  assume "map_of (localStorage p) (storage_key sid) = Some t \<and> t \<noteq> [] \<and> known_job_type t = None"
  then show "provider_attachJob env props sid params chunks p
        = (p, Some (Inl (AttachJobError
                           (''Invalid job type '' @ [CHR 0x22] @ t @ [CHR 0x22]
                            @ '' for job '' @ sid)
                           None)))"
    by (simp add: provider_attachJob_def)
next
  assume a: "map_of (localStorage p) (storage_key sid) = Some t \<and> known_job_type t = Some ty"
  then have ne: "t \<noteq> []"
    by (auto simp: known_job_type_def split: if_splits)
  have aj: "attachJob (lastFetchResponse env) chunks = None
     \<longleftrightarrow> settled (subscribeToJobStream (lastFetchResponse env) chunks) = None"
    using awaited_None[of "lastFetchResponse env" chunks subscribed]
    by (auto simp: attachJob_def subscribeToJobStream_def split: option.splits outcome.splits)
  show "let p' = fst (provider_attachJob env props sid params chunks p);
            out = snd (provider_attachJob env props sid params chunks p)
        in opened p' = opened p @ [(mappingJobTypeToUrl props ty @ ''/'' @ sid, ''POST'')]
           \<and> currentJobType p' = Some ty
           \<and> rawState p' = state (subscribeToJobStream (lastFetchResponse env) chunks)
           \<and> (out = None \<longleftrightarrow> settled (subscribeToJobStream (lastFetchResponse env) chunks) = None)"
    using a ne aj last_snapshot[of "lastFetchResponse env" chunks]
    by (auto simp: provider_attachJob_def Let_def forward_snapshots_keeps
        split: option.splits sum.splits)
qed

text \<open>
  Three stores: an empty one, one holding an unknown type, and the one left by a
  \<^verbatim>\<open>createJob\<close> of type \<^verbatim>\<open>f2c\<close> whose stream announced the session \<^verbatim>\<open>s1\<close>.
\<close>

theorem attachJob_requires_job_type_witness:
  "map_of (localStorage (mounted [])) (storage_key ''s1'') = None
   \<and> snd (provider_attachJob example_environment example_props ''s1'' No_params
            [ [Start ''s1'', Done 3 ''s1''] ] (mounted []))
       = Some (Inl (AttachJobError
                      ''Cannot attach job s1: job type not found in local storage'' None))
   \<and> map_of (localStorage (mounted [(''anima:s1:type'', ''xyz'')])) (storage_key ''s1'')
       = Some ''xyz''
   \<and> ''xyz'' \<noteq> [] \<and> known_job_type ''xyz'' = None
   \<and> fst (provider_attachJob example_environment example_props ''s1'' No_params
            [ [Start ''s1'', Done 3 ''s1''] ] (mounted [(''anima:s1:type'', ''xyz'')]))
       = mounted [(''anima:s1:type'', ''xyz'')]
   \<and> map_of (localStorage (mounted [(''anima:s1:type'', ''f2c'')])) (storage_key ''s1'')
       = Some ''f2c''
   \<and> known_job_type ''f2c'' = Some F2c
   \<and> opened (fst (provider_attachJob example_environment example_props ''s1'' No_params
                     [ [Start ''s1'', Done 3 ''s1''] ] (mounted [(''anima:s1:type'', ''f2c'')])))
       = [(''/api/f2c/s1'', ''POST'')]"
proof -
  have h1: "map_of (localStorage (mounted [])) (storage_key ''s1'') = None"
    by (simp add: mounted_def)
  have h2: "map_of (localStorage (mounted [(''anima:s1:type'', ''xyz'')])) (storage_key ''s1'')
              = Some ''xyz'' \<and> ''xyz'' \<noteq> [] \<and> known_job_type ''xyz'' = None"
    by (simp add: mounted_def storage_key_def known_job_type_def)
  have h3: "map_of (localStorage (mounted [(''anima:s1:type'', ''f2c'')])) (storage_key ''s1'')
              = Some ''f2c'' \<and> known_job_type ''f2c'' = Some F2c"
    by (simp add: mounted_def storage_key_def known_job_type_def)
  note t = attachJob_requires_job_type
             [where env = example_environment and props = example_props and sid = "''s1''"
                and params = No_params and chunks = "[ [Start ''s1'', Done 3 ''s1''] ]"]
  have a1: "snd (provider_attachJob example_environment example_props ''s1'' No_params
                   [ [Start ''s1'', Done 3 ''s1''] ] (mounted []))
              = Some (Inl (AttachJobError
                             ''Cannot attach job s1: job type not found in local storage'' None))"
    using t [where p = "mounted []" and t = "''''" and ty = F2c] h1 by simp
  have a2: "fst (provider_attachJob example_environment example_props ''s1'' No_params
                   [ [Start ''s1'', Done 3 ''s1''] ] (mounted [(''anima:s1:type'', ''xyz'')]))
              = mounted [(''anima:s1:type'', ''xyz'')]"
    using t [where p = "mounted [(''anima:s1:type'', ''xyz'')]" and t = "''xyz''" and ty = F2c] h2
    by simp
  have a3: "opened (fst (provider_attachJob example_environment example_props ''s1'' No_params
                     [ [Start ''s1'', Done 3 ''s1''] ] (mounted [(''anima:s1:type'', ''f2c'')])))
              = [(''/api/f2c/s1'', ''POST'')]"
    using t [where p = "mounted [(''anima:s1:type'', ''f2c'')]" and t = "''f2c''" and ty = F2c] h3
    by (simp add: Let_def mounted_def example_props_def)
  show ?thesis
    using h1 h2 h3 a1 a2 a3 by simp
qed

section \<open>Properties of the stream reader of the SDK\<close>

subsection \<open>Auxiliary facts\<close>

lemma split_nl_nonempty: "split_nl t \<noteq> []"
  by (induction t) (auto split: list.splits)

lemma split_nl_append:
  "split_nl (xs @ ys) = butlast (split_nl xs) @ split_nl (last (split_nl xs) @ ys)"
proof (induction xs)
  case Nil
  then show ?case by simp
next
  case (Cons c xs)
  obtain l ls where s: "split_nl xs = l # ls"
    using split_nl_nonempty[of xs] by (cases "split_nl xs") auto
  show ?case
  proof (cases "c = CHR 0x0A")
    case True
    then show ?thesis using Cons s by simp
  next
    case False
    show ?thesis
    proof (cases ls)
      case Nil
      obtain l2 ls2 where s2: "split_nl (l @ ys) = l2 # ls2"
        using split_nl_nonempty[of "l @ ys"] by (cases "split_nl (l @ ys)") auto
      show ?thesis using False Cons s Nil s2 by simp
    next
      case (Cons a as)
      then show ?thesis using False Cons.IH s by simp
    qed
  qed
qed

lemma incomplete_line_last: "incomplete_line t = last (split_nl t)"
  using split_nl_nonempty[of t]
  by (cases "split_nl t" rule: rev_cases) (simp_all add: incomplete_line_def)

lemma complete_lines_append:
  "complete_lines (xs @ ys) = complete_lines xs @ complete_lines (incomplete_line xs @ ys)"
  by (simp add: complete_lines_def incomplete_line_last split_nl_append[of xs ys]
      butlast_append split_nl_nonempty)

lemma incomplete_line_append:
  "incomplete_line (xs @ ys) = incomplete_line (incomplete_line xs @ ys)"
  by (simp add: incomplete_line_last split_nl_append[of xs ys] split_nl_nonempty)

lemma split_nl_no_newline: "CHR 0x0A \<notin> set t \<Longrightarrow> split_nl t = [t]"
  by (induction t) auto

lemma last_split_nl_no_newline: "CHR 0x0A \<notin> set (last (split_nl t))"
proof (induction t)
  case Nil
  then show ?case by simp
next
  case (Cons c t)
  obtain l ls where s: "split_nl t = l # ls"
    using split_nl_nonempty[of t] by (cases "split_nl t") auto
  show ?case using Cons s by (cases ls) auto
qed

lemma incomplete_line_no_newline: "CHR 0x0A \<notin> set (incomplete_line t)"
  by (simp add: incomplete_line_last last_split_nl_no_newline)

lemma process_lines_append:
  "process_lines P ctx (xs @ ys) run =
     (case process_lines P ctx xs run of
        Continue r \<Rightarrow> process_lines P ctx ys r
      | Return r \<Rightarrow> Return r
      | Throw e r \<Rightarrow> Throw e r)"
  by (induction xs arbitrary: run) (auto split: flow.splits)

lemma read_loop_lines:
  assumes "CHR 0x0A \<notin> set buffer"
  shows "read_loop P ctx chunks buffer run
           = process_lines P ctx (complete_lines (buffer @ concat chunks)) run"
  using assms
proof (induction chunks arbitrary: buffer run)
  case Nil
  then show ?case by (simp add: complete_lines_def split_nl_no_newline)
next
  case (Cons chunk chunks)
  have ih: "read_loop P ctx chunks (incomplete_line (buffer @ chunk)) r
              = process_lines P ctx
                  (complete_lines (incomplete_line (buffer @ chunk) @ concat chunks)) r" for r
    by (rule Cons.IH) (rule incomplete_line_no_newline)
  have "complete_lines (buffer @ concat (chunk # chunks))
          = complete_lines (buffer @ chunk)
            @ complete_lines (incomplete_line (buffer @ chunk) @ concat chunks)"
    using complete_lines_append[of "buffer @ chunk" "concat chunks"] by simp
  then show ?case
    by (simp add: process_lines_append ih split: flow.splits)
qed

lemma emit_kind:
  "is_continue (emit ctx d cb args run)
     = (case handler ctx of
          Handler_function \<Rightarrow> True
        | Handler_object defined \<Rightarrow>
            cb \<notin> set defined \<or> (case args of Inl _ \<Rightarrow> False | Inr _ \<Rightarrow> True))"
  by (simp add: emit_def split: handler.splits sum.splits)

lemma emit_not_return: "emit ctx d cb args run \<noteq> Return r"
  by (simp add: emit_def split: handler.splits sum.splits)

lemmas case_defs =
  case_queueing_def case_start_def case_pre_codegen_def case_assets_uploaded_def
  case_assets_list_def case_figma_metadata_def case_generating_code_def
  case_progress_messages_updated_def case_job_status_updated_def case_codegen_completed_def

lemma case_kind:
  "is_continue (case_queueing ctx d run) = is_continue (case_queueing ctx d run0)"
  "is_continue (case_start ctx d run) = is_continue (case_start ctx d run0)"
  "is_continue (case_pre_codegen ctx d run) = is_continue (case_pre_codegen ctx d run0)"
  "is_continue (case_assets_uploaded ctx d run) = is_continue (case_assets_uploaded ctx d run0)"
  "is_continue (case_assets_list ctx d run) = is_continue (case_assets_list ctx d run0)"
  "is_continue (case_figma_metadata ctx d run) = is_continue (case_figma_metadata ctx d run0)"
  "is_continue (case_generating_code ctx d run) = is_continue (case_generating_code ctx d run0)"
  "is_continue (case_progress_messages_updated ctx d run)
     = is_continue (case_progress_messages_updated ctx d run0)"
  "is_continue (case_job_status_updated ctx d run) = is_continue (case_job_status_updated ctx d run0)"
  "is_continue (case_codegen_completed ctx d run) = is_continue (case_codegen_completed ctx d run0)"
  "is_continue (case_error d run) = is_continue (case_error d run0)"
  "is_continue (case_done d run) = is_continue (case_done d run0)"
  by (simp_all add: case_defs case_error_def case_done_def emit_kind
      split: sum.splits handler.splits prod.splits)

lemma handle_type_kind:
  "is_continue (handle_type ctx t d run) = is_continue (handle_type ctx t d run0)"
  unfolding handle_type_def
  using case_kind[where run = run and ?run0.0 = run0] by simp

lemma process_line_kind:
  "is_continue (process_line P ctx l run) = is_continue (process_line P ctx l run0)"
  unfolding process_line_def handle_message_def
  using handle_type_kind[where run = run and ?run0.0 = run0 and ctx = ctx]
  by (auto split: option.splits sum.splits json.splits)

lemma case_not_return:
  "case_queueing ctx d run \<noteq> Return r"
  "case_start ctx d run \<noteq> Return r"
  "case_pre_codegen ctx d run \<noteq> Return r"
  "case_assets_uploaded ctx d run \<noteq> Return r"
  "case_assets_list ctx d run \<noteq> Return r"
  "case_figma_metadata ctx d run \<noteq> Return r"
  "case_generating_code ctx d run \<noteq> Return r"
  "case_progress_messages_updated ctx d run \<noteq> Return r"
  "case_job_status_updated ctx d run \<noteq> Return r"
  "case_codegen_completed ctx d run \<noteq> Return r"
  "case_error d run \<noteq> Return r"
  by (simp_all add: case_defs case_error_def emit_not_return
      split: sum.splits handler.splits prod.splits)

lemma handle_type_return:
  "handle_type ctx t d run = Return r \<Longrightarrow> t = ''done''"
  unfolding handle_type_def
  by (simp add: case_not_return split: if_splits)

lemma process_line_return:
  assumes "process_line P ctx l run = Return r"
  shows "is_done_line P l"
  using assms handle_type_return[where ctx = ctx and run = run and r = r]
  by (auto simp: process_line_def handle_message_def is_done_line_def
      split: if_splits option.splits sum.splits json.splits)

lemma read_all_lines:
  "read_loop P ctx chunks [] run = process_lines P ctx (stream_lines chunks) run"
  using read_loop_lines[of "[]" P ctx chunks run] by (simp add: stream_lines_def)

lemma process_lines_go_on:
  assumes "\<forall>l\<in>set ls. \<not> ends_request P ctx l"
  shows "is_continue (process_lines P ctx ls run)"
  using assms
proof (induction ls arbitrary: run)
  case Nil
  then show ?case by simp
next
  case (Cons l ls)
  then have "is_continue (process_line P ctx l empty_run)"
    by (auto simp: ends_request_def split: flow.splits)
  then have "is_continue (process_line P ctx l run)"
    using process_line_kind[of P ctx l run empty_run] by simp
  then obtain r where "process_line P ctx l run = Continue r"
    by (cases "process_line P ctx l run") auto
  then show ?case using Cons by simp
qed

lemma process_lines_return:
  assumes "process_lines P ctx ls run = Return r"
  shows "\<exists>l\<in>set ls. is_done_line P l"
  using assms
proof (induction ls arbitrary: run)
  case Nil
  then show ?case by simp
next
  case (Cons l ls)
  show ?case
  proof (cases "process_line P ctx l run")
    case (Continue r')
    then show ?thesis using Cons by auto
  next
    case (Return r')
    then show ?thesis using process_line_return[of P ctx l run r'] by simp
  next
    case (Throw e r')
    then show ?thesis using Cons.prems by simp
  qed
qed

lemma process_lines_skip:
  assumes "process_line P ctx line = Continue"
  shows "process_lines P ctx (pre @ line # post) run = process_lines P ctx (pre @ post) run"
  using assms by (simp add: process_lines_append split: flow.splits)

lemma example_lines:
  "stream_lines example_chunks = [''data: {start}'', ''data: {torn'', [], ''data: {completed}'']"
  "stream_lines example_chunks_without = [''data: {start}'', [], ''data: {completed}'']"
  "stream_lines example_chunks_done
     = [''data: {start}'', ''data: {torn'', [], ''data: {completed}'', ''data: {done}'']"
  by (simp_all add: stream_lines_def complete_lines_def example_chunks_def
      example_chunks_without_def example_chunks_done_def)

lemma example_lines_aborted:
  "stream_lines example_chunks_aborted = [''data: {start}'', ''data: {aborted}'', ''data: {done}'']"
  "stream_lines example_chunks_not_aborted = [''data: {start}'', ''data: {done}'']"
  by (simp_all add: stream_lines_def complete_lines_def example_chunks_aborted_def
      example_chunks_not_aborted_def)

lemma handle_type_unmatched: "t \<notin> set case_labels \<Longrightarrow> handle_type ctx t data run = Continue run"
  by (simp add: handle_type_def case_labels_def)

lemma handle_type_error: "handle_type ctx ''error'' data run = case_error data run"
  by (simp add: handle_type_def)

subsection \<open>C7: malformed frames\<close>

text \<open>
  C7 as the specification words it: a frame that is no JSON is the only thing passed
  over in silence, every other condition, the abort reported by the server among them,
  reaching the caller as the rejection or the result of the call. The \<^verbatim>\<open>switch\<close> has no
  case \<^verbatim>\<open>aborted\<close> and no default: an \<^verbatim>\<open>aborted\<close> message that parses is dropped as the
  malformed line is, with no call to the handler, and the request goes on to return the
  result of the \<^verbatim>\<open>done\<close> message that follows, as it does for the stream without the
  \<^verbatim>\<open>aborted\<close> message.
\<close>

theorem malformed_frame_not_alone_counterexample:
  "example_parse (drop 6 ''data: {aborted}'') = Some (JObject [(''type'', JString ''aborted'')])
   \<and> process_line example_parse example_context ''data: {aborted}'' empty_run
       = Continue empty_run
   \<and> consume_stream example_parse example_context example_chunks_aborted
       = consume_stream example_parse example_context example_chunks_not_aborted
   \<and> consume_stream example_parse example_context example_chunks_aborted
       = \<lparr> completion =
             Returns \<lparr> r_sessionId = Some (JString ''s1''), r_figmaFileName = None,
                       r_figmaSelectedFrameName = None, r_tokenUsage = Some (JNumber 10),
                       r_files = None, r_assets = None \<rparr>,
           calls = [Message (JObject [(''type'', JString ''start''),
                                      (''sessionId'', JString ''s1'')])],
           reader_cancelled = True \<rparr>"
  by (simp add: consume_stream_def read_all_lines example_lines_aborted process_line_def
      is_space_def example_parse_def example_context_def handle_message_def handle_type_def
      case_start_def case_done_def emit_def top_prop_def payload_prop_def empty_run_def)

text \<open>
  C7, amended.
  \<^item> A data line whose text \<^verbatim>\<open>JSON.parse\<close> rejects is skipped: processing it changes neither
    the result nor the calls made to the handler and raises nothing, and the loop goes
    on with the next line, so that leaving the line out of the stream changes nothing
    in what the request does.
  \<^item> A data line that does parse is handed to the \<^verbatim>\<open>switch\<close>.
  \<^item> The malformed line is not the only thing passed over in silence. A message whose
    \<^verbatim>\<open>type\<close> is a string that labels no case of the \<^verbatim>\<open>switch\<close>, which has no default, is
    dropped in the same way, and so is a message whose \<^verbatim>\<open>type\<close> is missing or is no
    string.
  \<^item> What the \<^verbatim>\<open>switch\<close> does surface: a message of type \<^verbatim>\<open>error\<close> never lets the loop go
    on; it throws the \<^verbatim>\<open>CodegenError\<close> made of the \<^verbatim>\<open>errorName\<close> and the \<^verbatim>\<open>reason\<close> of its
    payload. The message \<^verbatim>\<open>null\<close> throws a type error.
\<close>

theorem malformed_frame_skipped:
  "(take 6 line = ''data: '' \<and> JSON_parse (drop 6 line) = None \<longrightarrow>
      process_line JSON_parse ctx line run = Continue run
      \<and> process_lines JSON_parse ctx (pre @ line # post) run
          = process_lines JSON_parse ctx (pre @ post) run
      \<and> (stream_lines chunks = pre @ line # post \<and> stream_lines chunks' = pre @ post \<longrightarrow>
           consume_stream JSON_parse ctx chunks = consume_stream JSON_parse ctx chunks'))
   \<and> (\<not> list_all is_space line \<and> take 1 line \<noteq> '':'' \<and> take 6 line = ''data: ''
        \<and> JSON_parse (drop 6 line) = Some data \<longrightarrow>
      process_line JSON_parse ctx line run = handle_message ctx data run)
   \<and> (get_prop (Some data) ''type'' = Inr (Some (JString t)) \<and> t \<notin> set case_labels \<longrightarrow>
      handle_message ctx data run = Continue run)
   \<and> (get_prop (Some data) ''type'' = Inr ty \<and> (\<forall>t. ty \<noteq> Some (JString t)) \<longrightarrow>
      handle_message ctx data run = Continue run)
   \<and> (get_prop (Some data) ''type'' = Inr (Some (JString ''error'')) \<longrightarrow>
      \<not> is_continue (handle_message ctx data run)
      \<and> (payload_prop data ''errorName'' = Inr n \<and> payload_prop data ''reason'' = Inr r \<longrightarrow>
           handle_message ctx data run
             = Throw (CodegenError_thrown \<lparr> e_name = n, e_reason = r, e_status = None \<rparr>) run))
   \<and> handle_message ctx JNull run = Throw TypeError_thrown run"
proof (intro conjI impI)
  assume a: "take 6 line = ''data: '' \<and> JSON_parse (drop 6 line) = None"
  then have skip: "process_line JSON_parse ctx line = Continue"
    by (auto simp: process_line_def)
  show "process_line JSON_parse ctx line run = Continue run"
    by (simp add: skip)
  show eq: "process_lines JSON_parse ctx (pre @ line # post) run
          = process_lines JSON_parse ctx (pre @ post) run" for run
    using skip by (rule process_lines_skip)
  assume "stream_lines chunks = pre @ line # post \<and> stream_lines chunks' = pre @ post"
  then show "consume_stream JSON_parse ctx chunks = consume_stream JSON_parse ctx chunks'"
    by (simp add: consume_stream_def read_all_lines eq)
next
  assume "\<not> list_all is_space line \<and> take 1 line \<noteq> '':'' \<and> take 6 line = ''data: ''
        \<and> JSON_parse (drop 6 line) = Some data"
  then show "process_line JSON_parse ctx line run = handle_message ctx data run"
    by (simp add: process_line_def)
next
  assume "get_prop (Some data) ''type'' = Inr (Some (JString t)) \<and> t \<notin> set case_labels"
  then show "handle_message ctx data run = Continue run"
    by (simp add: handle_message_def handle_type_unmatched)
next
  assume "get_prop (Some data) ''type'' = Inr ty \<and> (\<forall>t. ty \<noteq> Some (JString t))"
  then show "handle_message ctx data run = Continue run"
    by (auto simp: handle_message_def split: option.splits json.splits)
next
  assume e: "get_prop (Some data) ''type'' = Inr (Some (JString ''error''))"
  then have h: "handle_message ctx data run = case_error data run"
    by (simp add: handle_message_def handle_type_error)
  show "\<not> is_continue (handle_message ctx data run)"
    by (simp add: h case_error_def split: sum.splits)
  assume "payload_prop data ''errorName'' = Inr n \<and> payload_prop data ''reason'' = Inr r"
  then show "handle_message ctx data run
             = Throw (CodegenError_thrown \<lparr> e_name = n, e_reason = r, e_status = None \<rparr>) run"
    by (simp add: h case_error_def)
next
  show "handle_message ctx JNull run = Throw TypeError_thrown run"
    by (simp add: handle_message_def)
qed

text \<open>
  The example stream holds the malformed line \<^verbatim>\<open>data: {torn\<close> between a \<^verbatim>\<open>start\<close> and a
  \<^verbatim>\<open>codegen_completed\<close> message: the handler sees these two messages only, as for the
  stream without the line. A message of type \<^verbatim>\<open>heartbeat\<close> and the number 5 are dropped,
  a message of type \<^verbatim>\<open>error\<close> is thrown.
\<close>

theorem malformed_frame_skipped_witness:
  "take 6 ''data: {torn'' = ''data: '' \<and> example_parse (drop 6 ''data: {torn'') = None
   \<and> stream_lines example_chunks = [''data: {start}''] @ ''data: {torn'' # [ [], ''data: {completed}'']
   \<and> stream_lines example_chunks_without = [''data: {start}''] @ [ [], ''data: {completed}'']
   \<and> consume_stream example_parse example_context example_chunks
       = consume_stream example_parse example_context example_chunks_without
   \<and> calls (consume_stream example_parse example_context example_chunks_without)
       = [Message (JObject [(''type'', JString ''start''), (''sessionId'', JString ''s1'')]),
          Message (JObject [(''type'', JString ''codegen_completed'')])]
   \<and> process_line example_parse example_context ''data: {torn'' empty_run = Continue empty_run
   \<and> get_prop (Some (JObject [(''type'', JString ''heartbeat'')])) ''type''
       = Inr (Some (JString ''heartbeat''))
   \<and> ''heartbeat'' \<notin> set case_labels
   \<and> handle_message example_context (JObject [(''type'', JString ''heartbeat'')]) empty_run
       = Continue empty_run
   \<and> get_prop (Some (JNumber 5)) ''type'' = Inr None
   \<and> handle_message example_context (JNumber 5) empty_run = Continue empty_run
   \<and> get_prop (Some (JObject [(''type'', JString ''error''),
                               (''payload'', JObject [(''errorName'', JString ''Boom''),
                                                      (''reason'', JString ''bad'')])]))
         ''type''
       = Inr (Some (JString ''error''))
   \<and> handle_message example_context
         (JObject [(''type'', JString ''error''),
                   (''payload'', JObject [(''errorName'', JString ''Boom''),
                                          (''reason'', JString ''bad'')])])
         empty_run
       = Throw (CodegenError_thrown \<lparr> e_name = Some (JString ''Boom''),
                                       e_reason = Some (JString ''bad''), e_status = None \<rparr>)
           empty_run"
proof -
  let ?hb = "JObject [(''type'', JString ''heartbeat'')]"
  let ?err = "JObject [(''type'', JString ''error''),
                       (''payload'', JObject [(''errorName'', JString ''Boom''),
                                              (''reason'', JString ''bad'')])]"
  have h1: "take 6 ''data: {torn'' = ''data: '' \<and> example_parse (drop 6 ''data: {torn'') = None"
    by (simp add: example_parse_def)
  have h2: "stream_lines example_chunks
              = [''data: {start}''] @ ''data: {torn'' # [ [], ''data: {completed}'']
            \<and> stream_lines example_chunks_without = [''data: {start}''] @ [ [], ''data: {completed}'']"
    by (simp add: example_lines)
  have c: "calls (consume_stream example_parse example_context example_chunks_without)
             = [Message (JObject [(''type'', JString ''start''), (''sessionId'', JString ''s1'')]),
                Message (JObject [(''type'', JString ''codegen_completed'')])]"
    by (simp add: consume_stream_def read_all_lines example_lines process_line_def is_space_def
        example_parse_def example_context_def handle_message_def handle_type_def
        case_start_def case_codegen_completed_def emit_def top_prop_def empty_run_def)
  have h3: "get_prop (Some ?hb) ''type'' = Inr (Some (JString ''heartbeat''))
            \<and> ''heartbeat'' \<notin> set case_labels"
    by (simp add: case_labels_def)
  have h4: "get_prop (Some (JNumber 5)) ''type'' = Inr None"
    by simp
  have h5: "get_prop (Some ?err) ''type'' = Inr (Some (JString ''error''))
            \<and> payload_prop ?err ''errorName'' = Inr (Some (JString ''Boom''))
            \<and> payload_prop ?err ''reason'' = Inr (Some (JString ''bad''))"
    by (simp add: payload_prop_def)
  have a1: "consume_stream example_parse example_context example_chunks
              = consume_stream example_parse example_context example_chunks_without
            \<and> process_line example_parse example_context ''data: {torn'' empty_run
                = Continue empty_run"
    using malformed_frame_skipped
            [where line = "''data: {torn''" and JSON_parse = example_parse
               and ctx = example_context and run = empty_run
               and pre = "[''data: {start}'']" and post = "[ [], ''data: {completed}'']"
               and chunks = example_chunks and chunks' = example_chunks_without,
             THEN conjunct1]
      h1 h2
    by simp
  have a2: "handle_message example_context ?hb empty_run = Continue empty_run"
    using malformed_frame_skipped
            [where data = ?hb and t = "''heartbeat''" and ctx = example_context
               and run = empty_run, THEN conjunct2, THEN conjunct2, THEN conjunct1]
      h3
    by simp
  have a3: "handle_message example_context (JNumber 5) empty_run = Continue empty_run"
    using malformed_frame_skipped
            [where data = "JNumber 5" and ty = None and ctx = example_context
               and run = empty_run, THEN conjunct2, THEN conjunct2, THEN conjunct2,
             THEN conjunct1]
      h4
    by simp
  have a4: "handle_message example_context ?err empty_run
              = Throw (CodegenError_thrown \<lparr> e_name = Some (JString ''Boom''),
                                              e_reason = Some (JString ''bad''),
                                              e_status = None \<rparr>)
                  empty_run"
    using malformed_frame_skipped
            [where data = ?err and n = "Some (JString ''Boom'')"
               and r = "Some (JString ''bad'')" and ctx = example_context
               and run = empty_run, THEN conjunct2, THEN conjunct2, THEN conjunct2,
             THEN conjunct2, THEN conjunct1]
      h5
    by simp
  show ?thesis
    using h1 h2 c h3 h4 h5 a1 a2 a3 a4 by simp
qed

subsection \<open>C10: a stream that closes before \<^verbatim>\<open>done\<close>\<close>

text \<open>
  C10. When no complete line of the stream ends the request (none carries a \<^verbatim>\<open>done\<close>
  message and none makes the \<^verbatim>\<open>switch\<close> throw), the request throws a \<^verbatim>\<open>CodegenError\<close> with
  name \<^verbatim>\<open>Connection\<close>, reason \<^verbatim>\<open>Connection closed before the 'done' message\<close> and status
  500. The request returns a result only when a line of the stream carries a \<^verbatim>\<open>done\<close>
  message, and the reader is cancelled on every way out.
\<close>

theorem connection_closed_before_done:
  "((\<forall>l\<in>set (stream_lines chunks). \<not> ends_request JSON_parse ctx l) \<longrightarrow>
      completion (consume_stream JSON_parse ctx chunks)
        = Throws (CodegenError_thrown connection_closed))
   \<and> (completion (consume_stream JSON_parse ctx chunks) = Returns res \<longrightarrow>
        (\<exists>l\<in>set (stream_lines chunks). is_done_line JSON_parse l))
   \<and> reader_cancelled (consume_stream JSON_parse ctx chunks)
   \<and> e_name connection_closed = Some (JString ''Connection'')
   \<and> e_reason connection_closed = Some (JString ''Connection closed before the 'done' message'')
   \<and> e_status connection_closed = Some 500"
proof (intro conjI impI)
  assume "\<forall>l\<in>set (stream_lines chunks). \<not> ends_request JSON_parse ctx l"
  then have "is_continue (process_lines JSON_parse ctx (stream_lines chunks) empty_run)"
    by (rule process_lines_go_on)
  then show "completion (consume_stream JSON_parse ctx chunks)
        = Throws (CodegenError_thrown connection_closed)"
    by (cases "process_lines JSON_parse ctx (stream_lines chunks) empty_run")
       (simp_all add: consume_stream_def read_all_lines)
next
  assume "completion (consume_stream JSON_parse ctx chunks) = Returns res"
  then obtain r where "process_lines JSON_parse ctx (stream_lines chunks) empty_run = Return r"
    by (cases "process_lines JSON_parse ctx (stream_lines chunks) empty_run")
       (simp_all add: consume_stream_def read_all_lines)
  then show "\<exists>l\<in>set (stream_lines chunks). is_done_line JSON_parse l"
    by (rule process_lines_return)
next
  show "reader_cancelled (consume_stream JSON_parse ctx chunks)"
    by (simp add: consume_stream_def split: flow.splits)
qed (simp_all add: connection_closed_def)

text \<open>
  The example stream ends inside the line of its \<^verbatim>\<open>done\<close> message: the connection error
  is thrown. With the missing line feed the same stream returns its result.
\<close>

theorem connection_closed_before_done_witness:
  "list_all (\<lambda>l. \<not> ends_request example_parse example_context l) (stream_lines example_chunks)
   \<and> completion (consume_stream example_parse example_context example_chunks)
       = Throws (CodegenError_thrown
                   \<lparr> e_name = Some (JString ''Connection''),
                     e_reason = Some (JString ''Connection closed before the 'done' message''),
                     e_status = Some 500 \<rparr>)
   \<and> completion (consume_stream example_parse example_context example_chunks_done)
       = Returns \<lparr> r_sessionId = Some (JString ''s1''), r_figmaFileName = None,
                   r_figmaSelectedFrameName = None, r_tokenUsage = Some (JNumber 10),
                   r_files = None, r_assets = None \<rparr>
   \<and> (\<exists>l\<in>set (stream_lines example_chunks_done). is_done_line example_parse l)"
proof -
  have h: "\<forall>l\<in>set (stream_lines example_chunks). \<not> ends_request example_parse example_context l"
    by (simp add: example_lines ends_request_def process_line_def is_space_def
        example_parse_def example_context_def handle_message_def handle_type_def
        case_start_def case_codegen_completed_def emit_def)
  have r: "completion (consume_stream example_parse example_context example_chunks_done)
             = Returns \<lparr> r_sessionId = Some (JString ''s1''), r_figmaFileName = None,
                         r_figmaSelectedFrameName = None, r_tokenUsage = Some (JNumber 10),
                         r_files = None, r_assets = None \<rparr>"
    by (simp add: consume_stream_def read_all_lines example_lines process_line_def is_space_def
        example_parse_def example_context_def handle_message_def handle_type_def
        case_start_def case_codegen_completed_def case_done_def emit_def top_prop_def
        payload_prop_def empty_run_def)
  have t1: "completion (consume_stream example_parse example_context example_chunks)
              = Throws (CodegenError_thrown connection_closed)"
    using connection_closed_before_done
            [where chunks = example_chunks and JSON_parse = example_parse
               and ctx = example_context] h
    by simp
  have t2: "\<exists>l\<in>set (stream_lines example_chunks_done). is_done_line example_parse l"
    using connection_closed_before_done
            [where chunks = example_chunks_done and JSON_parse = example_parse
               and ctx = example_context] r
    by simp
  show ?thesis
    using h r t1 t2 by (simp add: list_all_iff connection_closed_def)
qed

section \<open>The finalizer\<close>

subsection \<open>C3: \<^verbatim>\<open>done\<close> without files\<close>

text \<open>
  C3 as the specification words it: a \<^verbatim>\<open>done\<close> event with no files stashed before makes
  the job reject with a "no files" error. Neither the \<^verbatim>\<open>done\<close> listener of the React
  binding nor the \<^verbatim>\<open>done\<close> case of the SDK checks anything: after \<^verbatim>\<open>start\<close> and \<^verbatim>\<open>done\<close>
  alone the promise resolves, and the request of the SDK returns, with a result that has
  no files.
\<close>

theorem done_without_files_counterexample:
  "settled (subscribeToJobStream None [ [Start ''s1''], [Done 10 ''s1''] ])
     = Some (Resolved
               (Some \<lparr> sessionId = Some ''s1'', figmaFileName = None,
                       figmaSelectedFrameName = None, tokenUsage = Some 10, files = None,
                       assets = None \<rparr>)
               None)
   \<and> completion (consume_stream example_parse example_context example_chunks_done)
       = Returns \<lparr> r_sessionId = Some (JString ''s1''), r_figmaFileName = None,
                   r_figmaSelectedFrameName = None, r_tokenUsage = Some (JNumber 10),
                   r_files = None, r_assets = None \<rparr>"
proof -
  have "settled (subscribeToJobStream None [ [Start ''s1''], [Done 10 ''s1''] ])
     = Some (Resolved
               (Some \<lparr> sessionId = Some ''s1'', figmaFileName = None,
                       figmaSelectedFrameName = None, tokenUsage = Some 10, files = None,
                       assets = None \<rparr>)
               None)"
    by (simp add: subscribeToJobStream_def deliver_chunk_def subscribed_def stateUpdated_def
        on_start_def on_done_def settle_def initialProgress_def empty_result_def Let_def)
  moreover
  have "completion (consume_stream example_parse example_context example_chunks_done)
       = Returns \<lparr> r_sessionId = Some (JString ''s1''), r_figmaFileName = None,
                   r_figmaSelectedFrameName = None, r_tokenUsage = Some (JNumber 10),
                   r_files = None, r_assets = None \<rparr>"
    by (simp add: consume_stream_def read_all_lines example_lines process_line_def is_space_def
        example_parse_def example_context_def handle_message_def handle_type_def
        case_start_def case_codegen_completed_def case_done_def emit_def top_prop_def
        payload_prop_def empty_run_def)
  ultimately show ?thesis by simp
qed

text \<open>
  C3, amended. When no \<^verbatim>\<open>generating_code\<close> event with status \<^verbatim>\<open>success\<close> came before and
  the promise is not settled yet, a \<^verbatim>\<open>done\<close> event resolves the job, be it after any
  chunks \<open>cs\<close> and behind any events \<open>pre\<close> of its own chunk that leave no \<^verbatim>\<open>error\<close>
  listener to be resumed: the status becomes
  \<^verbatim>\<open>success\<close> and the promise resolves, without error, with the accumulated result,
  completed by the token usage and the session id of the event, in which \<^verbatim>\<open>files\<close> is
  missing. No "no files" error is raised. In the SDK the \<^verbatim>\<open>done\<close> case returns the result
  with token usage and session id set and every other field, \<^verbatim>\<open>files\<close> among them, as it
  was.
\<close>

theorem done_without_files_resolves:
  assumes "\<forall>ev\<in>set (concat (cs @ [pre])). \<not> stashes_files ev"
    and "error_frames pre = []"
    and "settled (subscribeToJobStream lfr (cs @ [pre])) = None"
  shows "(let r = (acc_result (subscribeToJobStream lfr (cs @ [pre])))
                    \<lparr>tokenUsage := Some usage, sessionId := Some sid\<rparr>;
              js = subscribeToJobStream lfr (cs @ [pre @ [Done usage sid]])
          in settled js = Some (Resolved (Some r) None) \<and> files r = None
             \<and> status (state js) = S_success \<and> result (state js) = Some r)
         \<and> (payload_prop data ''tokenUsage'' = Inr u \<and> payload_prop data ''sessionId'' = Inr s
              \<longrightarrow> handle_type ctx ''done'' data run
                    = Return (run\<lparr>run_result := (run_result run)\<lparr>r_tokenUsage := u,
                                                                r_sessionId := s\<rparr>\<rparr>))"
proof -
  have sdk: "payload_prop data ''tokenUsage'' = Inr u \<and> payload_prop data ''sessionId'' = Inr s
              \<longrightarrow> handle_type ctx ''done'' data run
                    = Return (run\<lparr>run_result := (run_result run)\<lparr>r_tokenUsage := u,
                                                                r_sessionId := s\<rparr>\<rparr>)"
    by (simp add: handle_type_def case_done_def)
  have "\<forall>ev\<in>set (effect_order (cs @ [pre])). \<not> stashes_files ev"
    using assms(1) by (simp only: set_effect_order)
  then have "files (acc_result (subscribeToJobStream lfr (cs @ [pre])))
               = files (acc_result subscribed)"
    unfolding subscription_effects by (rule run_listeners_keeps_files)
  then have nofiles: "files (acc_result (subscribeToJobStream lfr (cs @ [pre]))) = None"
    by (simp add: subscribed_def stateUpdated_def empty_result_def)
  have "resumed_last (pre @ [Done usage sid]) = resumed_last pre @ [Done usage sid]"
    using no_error_frames[OF assms(2)] by (simp add: resumed_last_def)
  then have order: "effect_order (cs @ [pre @ [Done usage sid]])
                      = effect_order (cs @ [pre]) @ [Done usage sid]"
    by (simp add: effect_order_def)
  have step: "subscribeToJobStream lfr (cs @ [pre @ [Done usage sid]])
                = on_done usage sid (subscribeToJobStream lfr (cs @ [pre]))"
    by (cases lfr) (simp_all add: subscription_effects order run_listeners_append)
  show ?thesis
    using assms(3) sdk nofiles
    by (simp add: step on_done_def settle_def stateUpdated_def Let_def)
qed

theorem done_without_files_resolves_witness:
  "list_all (\<lambda>ev. \<not> stashes_files ev)
     (concat ([ [Start ''s1''] ] @ [ [Generating_code G_running 50 None] ]))
   \<and> error_frames [Generating_code G_running 50 None] = []
   \<and> settled (subscribeToJobStream None [ [Start ''s1''], [Generating_code G_running 50 None] ])
       = None
   \<and> (let js = subscribeToJobStream None
                  [ [Start ''s1''], [Generating_code G_running 50 None, Done 10 ''s1''] ]
      in settled js
           = Some (Resolved
                     (Some \<lparr> sessionId = Some ''s1'', figmaFileName = None,
                             figmaSelectedFrameName = None, tokenUsage = Some 10,
                             files = None, assets = None \<rparr>)
                     None)
         \<and> status (state js) = S_success)
   \<and> payload_prop
         (JObject [(''type'', JString ''done''),
                   (''payload'', JObject [(''sessionId'', JString ''s1''),
                                          (''tokenUsage'', JNumber 10)])])
         ''tokenUsage'' = Inr (Some (JNumber 10))
   \<and> handle_type example_context ''done''
         (JObject [(''type'', JString ''done''),
                   (''payload'', JObject [(''sessionId'', JString ''s1''),
                                          (''tokenUsage'', JNumber 10)])])
         empty_run
       = Return (empty_run\<lparr>run_result := (run_result empty_run)
                              \<lparr>r_tokenUsage := Some (JNumber 10),
                               r_sessionId := Some (JString ''s1'')\<rparr>\<rparr>)"
proof -
  let ?d = "JObject [(''type'', JString ''done''),
                     (''payload'', JObject [(''sessionId'', JString ''s1''),
                                            (''tokenUsage'', JNumber 10)])]"
  have p: "payload_prop ?d ''tokenUsage'' = Inr (Some (JNumber 10))
           \<and> payload_prop ?d ''sessionId'' = Inr (Some (JString ''s1''))"
    by (simp add: payload_prop_def)
  let ?cs = "[ [Start ''s1''] ]"
  let ?pre = "[Generating_code G_running 50 None]"
  have h1: "\<forall>ev\<in>set (concat (?cs @ [?pre])). \<not> stashes_files ev"
    by (simp add: stashes_files_def)
  have h2: "error_frames ?pre = []"
    by simp
  have h3: "settled (subscribeToJobStream None (?cs @ [?pre])) = None"
    by (simp add: subscribeToJobStream_def deliver_chunk_def subscribed_def stateUpdated_def
        on_start_def on_generating_code_def set_tasks_def)
  have r: "acc_result (subscribeToJobStream None [ [Start ''s1''], ?pre ])
             = empty_result\<lparr>sessionId := Some ''s1''\<rparr>"
    by (simp add: subscribeToJobStream_def deliver_chunk_def subscribed_def stateUpdated_def
        on_start_def on_generating_code_def set_tasks_def)
  show ?thesis
    using done_without_files_resolves
            [OF h1 h2 h3, where usage = 10 and sid = "''s1''" and data = ?d
               and u = "Some (JNumber 10)" and s = "Some (JString ''s1'')"
               and ctx = example_context and run = empty_run] h1 h2 h3 p
    by (simp add: Let_def r empty_result_def list_all_iff)
qed

end
